theory Spec2Isabelle
  imports Complex_Main "HOL-Library.Multiset"
begin

section \<open>JavaScript values\<close>

text \<open>
  The values that reach the handlers: what \<open>express.json()\<close> (app.js, line 17) leaves in
  \<open>req.body\<close>, the strings of \<open>req.params\<close>, and the rows the database client returns.
  A finite number is the rational it denotes (\<open>0\<close> and \<open>-0\<close> are one value: the code
  only tests them for truthiness); \<open>NaN\<close> and the two infinities are values of their own.
\<close>

datatype jsval =
    JUndefined
  | JNull
  | JBool bool
  | JNum rat
  | JNaN
  | JInfinity bool
  | JStr string
  | JArr "jsval list"
  | JObj "(string \<times> jsval) list"

text \<open>ToBoolean: what \<open>!x\<close> and \<open>x || y\<close> test.\<close>

fun truthy :: "jsval \<Rightarrow> bool" where
  "truthy JUndefined = False"
| "truthy JNull = False"
| "truthy (JBool b) = b"
| "truthy (JNum n) = (n \<noteq> 0)"
| "truthy JNaN = False"
| "truthy (JInfinity _) = True"
| "truthy (JStr s) = (s \<noteq> [])"
| "truthy (JArr _) = True"
| "truthy (JObj _) = True"

text \<open>\<open>a || b\<close>\<close>

definition js_or :: "jsval \<Rightarrow> jsval \<Rightarrow> jsval" where
  "js_or a b = (if truthy a then a else b)"

text \<open>
  The message of the TypeError that V8 raises when a property is read from \<open>undefined\<close>
  or \<open>null\<close>: \<open>Cannot read properties of undefined (reading 'request')\<close>.
\<close>

definition cannot_read :: "string \<Rightarrow> string \<Rightarrow> string" where
  "cannot_read what p =
     ''Cannot read properties of '' @ what @ '' (reading '' @ [CHR 0x27] @ p @ [CHR 0x27] @ '')''"

text \<open>
  The same for a destructuring \<open>const { p, ... } = src\<close> of \<open>undefined\<close> or \<open>null\<close>:
  \<open>Cannot destructure property 'name' of 'req.body' as it is undefined.\<close>
\<close>

definition cannot_destructure :: "string \<Rightarrow> string \<Rightarrow> string \<Rightarrow> string" where
  "cannot_destructure p src what =
     ''Cannot destructure property '' @ [CHR 0x27] @ p @ [CHR 0x27] @ '' of '' @ [CHR 0x27] @ src
       @ [CHR 0x27] @ '' as it is '' @ what @ ''.''"

text \<open>
  \<open>undefined\<close> and \<open>null\<close> have no properties; reading one throws, and the message
  names the value.
\<close>

fun nullish :: "jsval \<Rightarrow> bool" where
  "nullish JUndefined = True"
| "nullish JNull = True"
| "nullish _ = False"

fun nullish_name :: "jsval \<Rightarrow> string" where
  "nullish_name JNull = ''null''"
| "nullish_name v = ''undefined''"

text \<open>
  The property \<open>p\<close> of a value that is not nullish, for a name that no prototype defines
  (here \<open>id\<close>, \<open>name\<close>, \<open>price\<close>, \<open>qty\<close>, \<open>description\<close>): the own property of an
  object, \<open>undefined\<close> when it has none and on every other value. An object is the list
  of its properties, each name once.
\<close>

fun field :: "jsval \<Rightarrow> string \<Rightarrow> jsval" where
  "field (JObj kvs) p = (case map_of kvs p of None \<Rightarrow> JUndefined | Some v \<Rightarrow> v)"
| "field _ p = JUndefined"

text \<open>\<open>v.p\<close>: a TypeError on \<open>undefined\<close> and \<open>null\<close>.\<close>

definition get_prop :: "jsval \<Rightarrow> string \<Rightarrow> string + jsval" where
  "get_prop v p = (if nullish v then Inl (cannot_read (nullish_name v) p) else Inr (field v p))"

text \<open>
  \<open>const { name, price, description, qty } = req.body\<close>: a TypeError when the body is
  \<open>undefined\<close> or \<open>null\<close>, and otherwise the four properties, \<open>undefined\<close> for each one
  that the body does not have.
\<close>

definition destructure :: "jsval \<Rightarrow> string + (jsval \<times> jsval \<times> jsval \<times> jsval)" where
  "destructure b =
     (if nullish b then Inl (cannot_destructure ''name'' ''req.body'' (nullish_name b))
      else Inr (field b ''name'', field b ''price'', field b ''description'', field b ''qty''))"

text \<open>An object without one of its properties; any other value as it is.\<close>

fun without :: "string \<Rightarrow> jsval \<Rightarrow> jsval" where
  "without p (JObj kvs) = JObj (filter (\<lambda>kv. fst kv \<noteq> p) kvs)"
| "without p v = v"

text \<open>\<open>xs[0]\<close> on an array: \<open>undefined\<close> when the array is empty.\<close>

definition first_elem :: "jsval list \<Rightarrow> jsval" where
  "first_elem xs = (case xs of [] \<Rightarrow> JUndefined | x # _ \<Rightarrow> x)"

section \<open>The database client\<close>

text \<open>
  The types of the \<open>mssql\<close> package that the handlers name, a request with its bound
  inputs, and the result object of a query: \<open>recordset\<close> is the array of rows of the first
  result set, \<open>rowsAffected\<close> the array of row counts, one per statement.
\<close>

datatype sqltype = sql_Int | sql_NVarChar | sql_Decimal nat nat

record sqlrequest =
  inputs :: "(string \<times> sqltype \<times> jsval) list"

record query =
  sql_text :: string
  bound :: "(string \<times> sqltype \<times> jsval) list"

record query_result =
  recordset :: "jsval list"
  rowsAffected :: "nat list"

text \<open>
  A connected pool is what it does with a query in a state of the store: it rejects with
  an error (\<open>Inl\<close> of the error's message) or resolves with a result, and leaves the store
  in a new state. The store is outside the program, so the handlers are defined for every
  such function.
\<close>

type_synonym 'db pool = "query \<Rightarrow> 'db \<Rightarrow> (string + query_result) \<times> 'db"

datatype 'a promise = Fulfilled 'a | Rejected string

section \<open>The world of a handler\<close>

datatype payload = Text string | Json jsval

record response =
  status :: nat
  content :: payload

text \<open>
  What a handler can change: the store, the statements submitted to it (oldest first) and
  the responses written (oldest first).
\<close>

record 'db world =
  store :: 'db
  issued :: "query list"
  sent :: "response list"

text \<open>
  A request: the path parameter \<open>req.params.id\<close> (a string; the empty string stands for
  a route without one) and \<open>req.body\<close>, the value that \<open>express.json()\<close> left there:
  the parsed object, or \<open>undefined\<close> or an empty object when the request carried no JSON,
  as the version of the framework has it.
\<close>

record request =
  params_id :: string
  body :: jsval

text \<open>\<open>res.status(st).send(text)\<close> and \<open>res.status(st).json(v)\<close>; the status is 200 when
  the code sets none.\<close>

definition respond :: "nat \<Rightarrow> payload \<Rightarrow> 'db world \<Rightarrow> 'db world" where
  "respond st b w = w\<lparr>sent := sent w @ [\<lparr>status = st, content = b\<rparr>]\<rparr>"

text \<open>\<open>await poolPromise\<close>: the value of a fulfilled promise, the error of a rejected one.\<close>

definition await :: "'a promise \<Rightarrow> string + 'a" where
  "await p = (case p of Fulfilled v \<Rightarrow> Inr v | Rejected e \<Rightarrow> Inl e)"

text \<open>\<open>pool.request()\<close>: a TypeError when \<open>pool\<close> is \<open>undefined\<close> (\<open>None\<close>).\<close>

definition pool_request :: "'db pool option \<Rightarrow> string + ('db pool \<times> sqlrequest)" where
  "pool_request pool =
     (case pool of
        None \<Rightarrow> Inl (cannot_read ''undefined'' ''request'')
      | Some p \<Rightarrow> Inr (p, \<lparr>inputs = []\<rparr>))"

text \<open>\<open>.input(name, type, value)\<close>\<close>

definition input :: "string \<Rightarrow> sqltype \<Rightarrow> jsval \<Rightarrow> 'db pool \<times> sqlrequest \<Rightarrow> 'db pool \<times> sqlrequest" where
  "input n ty v rq = (fst rq, (snd rq)\<lparr>inputs := inputs (snd rq) @ [(n, ty, v)]\<rparr>)"

text \<open>\<open>await request.query(text)\<close>: the statement is submitted with the inputs bound so far.\<close>

definition run_query ::
    "string \<Rightarrow> 'db pool \<times> sqlrequest \<Rightarrow> 'db world \<Rightarrow> (string + query_result) \<times> 'db world" where
  "run_query txt rq w =
     (let q = \<lparr>sql_text = txt, bound = inputs (snd rq)\<rparr>;
          (r, s') = (fst rq) q (store w)
      in (r, w\<lparr>store := s', issued := issued w @ [q]\<rparr>))"

section \<open>The product handlers (database/routes/products.js)\<close>

definition SQL_LIST :: string where
  "SQL_LIST = ''SELECT id, name, price,qty, description FROM Products ORDER BY id ASC''"

definition SQL_GET :: string where
  "SQL_GET = ''SELECT * FROM Products WHERE id = @id''"

definition SQL_INSERT :: string where
  "SQL_INSERT = ''INSERT INTO Products (name, price, description,qty) VALUES (@name, @price, @description,@qty); SELECT SCOPE_IDENTITY() as id''"

definition SQL_UPDATE :: string where
  "SQL_UPDATE = ''UPDATE Products SET name = @name, price = @price, description = @description,qty=@qty WHERE id = @id''"

definition SQL_DELETE :: string where
  "SQL_DELETE = ''DELETE FROM Products WHERE id = @id''"

text \<open>\<open>router.get('/')\<close>, lines 51-60.\<close>

definition get_products :: "'db pool option promise \<Rightarrow> request \<Rightarrow> 'db world \<Rightarrow> 'db world" where
  "get_products poolPromise req w =
     (case await poolPromise of
        Inl e \<Rightarrow> respond 500 (Text e) w
      | Inr pool \<Rightarrow>
          (case pool_request pool of
             Inl e \<Rightarrow> respond 500 (Text e) w
           | Inr rq \<Rightarrow>
               (case run_query SQL_LIST rq w of
                  (Inl e, w') \<Rightarrow> respond 500 (Text e) w'
                | (Inr result, w') \<Rightarrow> respond 200 (Json (JArr (recordset result))) w')))"

text \<open>\<open>router.get('/:id')\<close>, lines 85-100.\<close>

definition get_product :: "'db pool option promise \<Rightarrow> request \<Rightarrow> 'db world \<Rightarrow> 'db world" where
  "get_product poolPromise req w =
     (case await poolPromise of
        Inl e \<Rightarrow> respond 500 (Text e) w
      | Inr pool \<Rightarrow>
          (case pool_request pool of
             Inl e \<Rightarrow> respond 500 (Text e) w
           | Inr rq \<Rightarrow>
               (case run_query SQL_GET (input ''id'' sql_Int (JStr (params_id req)) rq) w of
                  (Inl e, w') \<Rightarrow> respond 500 (Text e) w'
                | (Inr result, w') \<Rightarrow>
                    if length (recordset result) = 0
                    then respond 404 (Text ''Product not found'') w'
                    else respond 200 (Json (first_elem (recordset result))) w')))"

text \<open>\<open>router.post('/')\<close>, lines 118-141.\<close>

definition post_product :: "'db pool option promise \<Rightarrow> request \<Rightarrow> 'db world \<Rightarrow> 'db world" where
  "post_product poolPromise req w =
     (case destructure (body req) of
        Inl e \<Rightarrow> respond 500 (Text e) w
      | Inr (name, price, description, qty) \<Rightarrow>
         if \<not> truthy name \<or> \<not> truthy price \<or> \<not> truthy qty
         then respond 400 (Text ''Name and price are required'') w
         else
           (case await poolPromise of
              Inl e \<Rightarrow> respond 500 (Text e) w
            | Inr pool \<Rightarrow>
                (case pool_request pool of
                   Inl e \<Rightarrow> respond 500 (Text e) w
                 | Inr rq \<Rightarrow>
                     (case run_query SQL_INSERT
                             (input ''description'' sql_NVarChar (js_or description (JStr ''''))
                               (input ''qty'' sql_Int qty
                                 (input ''price'' (sql_Decimal 10 2) price
                                   (input ''name'' sql_NVarChar name rq)))) w of
                        (Inl e, w') \<Rightarrow> respond 500 (Text e) w'
                      | (Inr result, w') \<Rightarrow>
                          (case get_prop (first_elem (recordset result)) ''id'' of
                             Inl e \<Rightarrow> respond 500 (Text e) w'
                           | Inr i \<Rightarrow>
                               respond 201
                                 (Json (JObj [(''message'', JStr ''Product created successfully''),
                                              (''id'', i)])) w')))))"

text \<open>\<open>rowsAffected[0] === 0\<close>: false when the array is empty (\<open>undefined === 0\<close>).\<close>

definition first_is_zero :: "nat list \<Rightarrow> bool" where
  "first_is_zero ns = (case ns of [] \<Rightarrow> False | n # _ \<Rightarrow> n = 0)"

text \<open>\<open>router.put('/:id')\<close>, lines 168-194.\<close>

definition put_product :: "'db pool option promise \<Rightarrow> request \<Rightarrow> 'db world \<Rightarrow> 'db world" where
  "put_product poolPromise req w =
     (case destructure (body req) of
        Inl e \<Rightarrow> respond 500 (Text e) w
      | Inr (name, price, description, qty) \<Rightarrow>
         let productId = params_id req
         in if \<not> truthy name \<or> \<not> truthy price \<or> \<not> truthy qty
         then respond 400 (Text ''Name and price are required'') w
         else
           (case await poolPromise of
              Inl e \<Rightarrow> respond 500 (Text e) w
            | Inr pool \<Rightarrow>
                (case pool_request pool of
                   Inl e \<Rightarrow> respond 500 (Text e) w
                 | Inr rq \<Rightarrow>
                     (case run_query SQL_UPDATE
                             (input ''description'' sql_NVarChar (js_or description (JStr ''''))
                               (input ''qty'' sql_Int qty
                                 (input ''price'' (sql_Decimal 10 2) price
                                   (input ''name'' sql_NVarChar name
                                     (input ''id'' sql_Int (JStr productId) rq))))) w of
                        (Inl e, w') \<Rightarrow> respond 500 (Text e) w'
                      | (Inr result, w') \<Rightarrow>
                          if first_is_zero (rowsAffected result)
                          then respond 404 (Text ''Product not found'') w'
                          else respond 200 (Text ''Product updated successfully'') w'))))"

text \<open>\<open>router.delete('/:id')\<close>, lines 215-230.\<close>

definition delete_product :: "'db pool option promise \<Rightarrow> request \<Rightarrow> 'db world \<Rightarrow> 'db world" where
  "delete_product poolPromise req w =
     (case await poolPromise of
        Inl e \<Rightarrow> respond 500 (Text e) w
      | Inr pool \<Rightarrow>
          (case pool_request pool of
             Inl e \<Rightarrow> respond 500 (Text e) w
           | Inr rq \<Rightarrow>
               (case run_query SQL_DELETE (input ''id'' sql_Int (JStr (params_id req)) rq) w of
                  (Inl e, w') \<Rightarrow> respond 500 (Text e) w'
                | (Inr result, w') \<Rightarrow>
                    if first_is_zero (rowsAffected result)
                    then respond 404 (Text ''Product not found'') w'
                    else respond 200 (Text ''Product deleted successfully'') w')))"

section \<open>The connection provider (config/database.js)\<close>

text \<open>
  \<open>process.env\<close> maps a variable's name to its string; a variable that is not set reads
  as \<open>undefined\<close>.
\<close>

type_synonym env = "string \<rightharpoonup> string"

definition env_get :: "env \<Rightarrow> string \<Rightarrow> jsval" where
  "env_get e k = (case e k of None \<Rightarrow> JUndefined | Some s \<Rightarrow> JStr s)"

record options =
  encrypt :: bool
  trustServerCertificate :: bool

record db_config =
  server :: jsval
  database :: jsval
  user :: jsval
  password :: jsval
  port :: jsval
  options :: options

text \<open>
  \<open>const config\<close>, lines 4-14. \<open>parseInt\<close> is the runtime's function and is a parameter
  here.
\<close>

definition config :: "(jsval \<Rightarrow> jsval) \<Rightarrow> env \<Rightarrow> db_config" where
  "config parseInt e =
     \<lparr>server = env_get e ''DB_SERVER'',
      database = env_get e ''DB_DATABASE'',
      user = env_get e ''DB_USER'',
      password = env_get e ''DB_PASSWORD'',
      port = parseInt (env_get e ''DB_PORT''),
      options = \<lparr>encrypt = False, trustServerCertificate = True\<rparr>\<rparr>"

text \<open>
  The console is the list of the calls of \<open>console.log\<close>, each with its arguments.
  \<open>p.then(f)\<close> runs \<open>f\<close> on the value of a fulfilled promise and passes a rejection on;
  \<open>p.catch(g)\<close> runs \<open>g\<close> on the error of a rejected promise and is fulfilled with what
  \<open>g\<close> returns. Neither callback of the source throws.
\<close>

type_synonym console = "string list list"

definition promise_then ::
    "'a promise \<Rightarrow> ('a \<Rightarrow> console \<Rightarrow> 'b \<times> console) \<Rightarrow> console \<Rightarrow> 'b promise \<times> console" where
  "promise_then p f c =
     (case p of
        Fulfilled v \<Rightarrow> (case f v c of (r, c') \<Rightarrow> (Fulfilled r, c'))
      | Rejected e \<Rightarrow> (Rejected e, c))"

definition promise_catch ::
    "'a promise \<Rightarrow> (string \<Rightarrow> console \<Rightarrow> 'a \<times> console) \<Rightarrow> console \<Rightarrow> 'a promise \<times> console" where
  "promise_catch p g c =
     (case p of
        Fulfilled v \<Rightarrow> (Fulfilled v, c)
      | Rejected e \<Rightarrow> (case g e c of (r, c') \<Rightarrow> (Fulfilled r, c')))"

text \<open>
  \<open>const poolPromise\<close>, lines 16-24. \<open>connect\<close> is the outcome of
  \<open>new sql.ConnectionPool(config).connect()\<close>: fulfilled with the pool or rejected with the
  error. The first callback returns the pool, the second returns nothing, that is
  \<open>undefined\<close> (\<open>None\<close>).
\<close>

definition poolPromise ::
    "(db_config \<Rightarrow> 'db pool promise) \<Rightarrow> db_config \<Rightarrow> console \<Rightarrow> 'db pool option promise \<times> console" where
  "poolPromise connect cfg c =
     (case promise_then (connect cfg)
             (\<lambda>pool c. (Some pool, c @ [[''Database connected successfully'']])) c of
        (p, c') \<Rightarrow>
          promise_catch p (\<lambda>err c. (None, c @ [[''Database connection failed: '', err]])) c')"

section \<open>The Products table\<close>

text \<open>
  Modelled from the spec: the store itself, which is a database server outside the
  repository. It holds the one table \<open>Products(id, name, price, qty, description)\<close> whose
  \<open>id\<close> the store assigns. The rows are kept in the order of their insertion, and
  \<open>identity\<close> is the id that the next inserted row gets.
\<close>

record product =
  prod_id :: int
  prod_name :: string
  prod_price :: rat
  prod_qty :: int
  prod_description :: string

record products_table =
  rows :: "product list"
  identity :: int

text \<open>
  Modelled from the spec: the store's type coercion. What the store makes of a bound value
  of a declared type is its own business (the spec leaves the coercion to the store), so it
  is a parameter: each function gives the column value, or \<open>None\<close> when the value is
  refused, and \<open>refusal\<close> is the message of the error raised then, for the parameter of that
  name, type and value.
\<close>

record driver =
  to_int :: "jsval \<Rightarrow> int option"
  to_decimal :: "jsval \<Rightarrow> rat option"
  to_nvarchar :: "jsval \<Rightarrow> string option"
  refusal :: "string \<Rightarrow> sqltype \<Rightarrow> jsval \<Rightarrow> string"

text \<open>
  Modelled from the spec: a row as the client returns it, an object with one property per
  column, in the order of the columns.
\<close>

definition row_json :: "product \<Rightarrow> jsval" where
  "row_json r =
     JObj [(''id'', JNum (of_int (prod_id r))),
           (''name'', JStr (prod_name r)),
           (''price'', JNum (prod_price r)),
           (''qty'', JNum (of_int (prod_qty r))),
           (''description'', JStr (prod_description r))]"

text \<open>
  Modelled from the spec: the five operations on the table that the specification names
  (list in ascending order of id, get by id, create under a generated id, update all four
  mutable fields by id, delete by id). What a statement of the handlers does is not taken
  from these: it is computed from the statement's text by \<open>products_db\<close> below, and the
  lemmas of the section \<open>The Products table at work\<close> prove that the five texts of
  products.js compute these five operations.
\<close>

definition select_all :: "products_table \<Rightarrow> product list" where
  "select_all t = sort_key prod_id (rows t)"

definition select_by_id :: "int \<Rightarrow> products_table \<Rightarrow> product list" where
  "select_by_id i t = filter (\<lambda>r. prod_id r = i) (rows t)"

definition insert_row :: "string \<Rightarrow> rat \<Rightarrow> string \<Rightarrow> int \<Rightarrow> products_table \<Rightarrow> products_table" where
  "insert_row n p ds k t =
     t\<lparr>rows := rows t @ [\<lparr>prod_id = identity t, prod_name = n, prod_price = p, prod_qty = k,
                           prod_description = ds\<rparr>],
       identity := identity t + 1\<rparr>"

definition update_row :: "int \<Rightarrow> string \<Rightarrow> rat \<Rightarrow> string \<Rightarrow> int \<Rightarrow> products_table \<Rightarrow> products_table" where
  "update_row i n p ds k t =
     t\<lparr>rows := map (\<lambda>r. if prod_id r = i
                          then r\<lparr>prod_name := n, prod_price := p, prod_description := ds, prod_qty := k\<rparr>
                          else r) (rows t)\<rparr>"

definition delete_row :: "int \<Rightarrow> products_table \<Rightarrow> products_table" where
  "delete_row i t = t\<lparr>rows := filter (\<lambda>r. prod_id r \<noteq> i) (rows t)\<rparr>"

text \<open>
  Modelled from the spec: the ids are system-generated. Every id in the table was assigned
  before the next one, so the ids are below \<open>identity\<close>. The empty table has the
  property and every statement keeps it.
\<close>

definition assigned :: "products_table \<Rightarrow> bool" where
  "assigned t = list_all (\<lambda>r. prod_id r < identity t) (rows t)"

section \<open>The statements as the store reads them\<close>

text \<open>
  Modelled from the spec: the language of the statements. The store is given the text of a
  statement and nothing else, so the model reads the text: it is cut into words, parameters
  (\<open>@name\<close>) and signs, parsed as a batch of SELECT, INSERT, UPDATE and DELETE statements
  separated by \<open>;\<close>, checked against the table, and run. Keywords, names and parameter
  names are read without regard to case. A text outside this fragment of SQL (a string
  literal, an operator other than \<open>=\<close>, a join) is rejected as a syntax error.
\<close>

subsection \<open>Characters and words\<close>

text \<open>Modelled from the spec: the characters of a statement's text, as the store sorts them.\<close>

definition is_space :: "char \<Rightarrow> bool" where
  "is_space c \<longleftrightarrow> (9::nat) \<le> of_char c \<and> (of_char c::nat) \<le> 13 \<or> (of_char c::nat) = 32"

definition is_digit :: "char \<Rightarrow> bool" where
  "is_digit c \<longleftrightarrow> (48::nat) \<le> of_char c \<and> (of_char c::nat) \<le> 57"

definition is_letter :: "char \<Rightarrow> bool" where
  "is_letter c \<longleftrightarrow> (65::nat) \<le> of_char c \<and> (of_char c::nat) \<le> 90
                 \<or> (97::nat) \<le> of_char c \<and> (of_char c::nat) \<le> 122"

definition is_word_char :: "char \<Rightarrow> bool" where
  "is_word_char c \<longleftrightarrow> is_letter c \<or> is_digit c \<or> c = CHR ''_''"

definition upper_char :: "char \<Rightarrow> char" where
  "upper_char c =
     (if (97::nat) \<le> of_char c \<and> (of_char c::nat) \<le> 122 then char_of (of_char c - (32::nat)) else c)"

definition upper :: "string \<Rightarrow> string" where
  "upper s = map upper_char s"

text \<open>The number that a string of digits writes in a radix (letters count from ten).\<close>

definition digit_of :: "char \<Rightarrow> nat" where
  "digit_of c =
     (if is_digit c then of_char c - 48
      else if (97::nat) \<le> of_char c then of_char c - 87
      else of_char c - 55)"

definition digits_value :: "nat \<Rightarrow> string \<Rightarrow> nat" where
  "digits_value radix s = foldl (\<lambda>a c. a * radix + digit_of c) 0 s"

subsection \<open>Tokens\<close>

text \<open>
  Modelled from the spec: the text cut into tokens. A word or a parameter name ends at
  white space or at a sign; a character that is none of these is a syntax error.
\<close>

datatype token = TWord string | TParam string | LParen | RParen | TComma | TSemi | TEquals | TStar

datatype lexing = Idle | InWord string | InParam string

fun flush :: "lexing \<Rightarrow> token list" where
  "flush Idle = []"
| "flush (InWord w) = [TWord w]"
| "flush (InParam p) = [TParam p]"

fun grow :: "lexing \<Rightarrow> char \<Rightarrow> lexing" where
  "grow Idle c = InWord [c]"
| "grow (InWord w) c = InWord (w @ [c])"
| "grow (InParam p) c = InParam (p @ [c])"

definition sign_token :: "char \<Rightarrow> token option" where
  "sign_token c =
     (if c = CHR ''('' then Some LParen
      else if c = CHR '')'' then Some RParen
      else if c = CHR '','' then Some TComma
      else if c = CHR '';'' then Some TSemi
      else if c = CHR ''='' then Some TEquals
      else if c = CHR ''*'' then Some TStar
      else None)"

fun lex :: "lexing \<Rightarrow> string \<Rightarrow> token list option" where
  "lex st [] = Some (flush st)"
| "lex st (c # cs) =
     (if is_word_char c then lex (grow st c) cs
      else if c = CHR ''@'' then
        (case st of Idle \<Rightarrow> lex (InParam []) cs | _ \<Rightarrow> lex (grow st c) cs)
      else if is_space c then map_option (\<lambda>ts. flush st @ ts) (lex Idle cs)
      else (case sign_token c of
              Some t \<Rightarrow> map_option (\<lambda>ts. flush st @ t # ts) (lex Idle cs)
            | None \<Rightarrow> None))"

subsection \<open>Statements\<close>

text \<open>
  Modelled from the spec: the statements that the tokens spell. An expression is a
  parameter, a whole number, a column or \<open>SCOPE_IDENTITY()\<close>.
\<close>

datatype expr = EParam string | EInt int | ECol string | EScopeIdentity

datatype direction = Asc | Desc

datatype selection = Star | Items "(expr \<times> string option) list"

text \<open>
  A SELECT has its items and, when it reads the table, the table's name, the condition
  \<open>WHERE column = expression\<close> if any, and the order if any.
\<close>

datatype stmt =
    Select selection "(string \<times> (string \<times> expr) option \<times> (string \<times> direction) option) option"
  | Insert string "string list" "expr list"
  | Update string "(string \<times> expr) list" "(string \<times> expr) option"
  | Delete string "(string \<times> expr) option"

definition kw :: "string \<Rightarrow> token \<Rightarrow> bool" where
  "kw k t = (case t of TWord w \<Rightarrow> upper w = k | _ \<Rightarrow> False)"

definition reserved :: "string list" where
  "reserved = [''SELECT'', ''FROM'', ''WHERE'', ''ORDER'', ''BY'', ''ASC'', ''DESC'', ''INSERT'',
               ''INTO'', ''VALUES'', ''UPDATE'', ''SET'', ''DELETE'', ''AS'', ''AND'', ''OR'']"

text \<open>A name: a word that starts with a letter or \<open>_\<close> and is not a keyword.\<close>

definition ident :: "token \<Rightarrow> string option" where
  "ident t =
     (case t of
        TWord w \<Rightarrow>
          (case w of
             c # _ \<Rightarrow> if \<not> is_digit c \<and> upper w \<notin> set reserved then Some w else None
           | [] \<Rightarrow> None)
      | _ \<Rightarrow> None)"

fun split_on :: "token \<Rightarrow> token list \<Rightarrow> token list list" where
  "split_on s [] = [[]]"
| "split_on s (t # ts) =
     (if t = s then [] # split_on s ts
      else (case split_on s ts of g # gs \<Rightarrow> (t # g) # gs | [] \<Rightarrow> [[t]]))"

definition until_kw :: "string \<Rightarrow> token list \<Rightarrow> token list" where
  "until_kw k ts = takeWhile (\<lambda>t. \<not> kw k t) ts"

definition from_kw :: "string \<Rightarrow> token list \<Rightarrow> token list" where
  "from_kw k ts = dropWhile (\<lambda>t. \<not> kw k t) ts"

definition parse_expr :: "token list \<Rightarrow> expr option" where
  "parse_expr ts =
     (case ts of
        [TParam p] \<Rightarrow> Some (EParam p)
      | [TWord w] \<Rightarrow>
          if w \<noteq> [] \<and> list_all is_digit w then Some (EInt (int (digits_value 10 w)))
          else map_option ECol (ident (TWord w))
      | [TWord w, LParen, RParen] \<Rightarrow>
          if upper w = ''SCOPE_IDENTITY'' then Some EScopeIdentity else None
      | _ \<Rightarrow> None)"

text \<open>An item of a SELECT: an expression, with \<open>AS name\<close> or \<open>name\<close> after it or not.\<close>

definition parse_item :: "token list \<Rightarrow> (expr \<times> string option) option" where
  "parse_item ts =
     (case rev ts of
        a # b # c # rest \<Rightarrow>
          if kw ''AS'' b then
            (case (parse_expr (rev (c # rest)), ident a) of
               (Some e, Some n) \<Rightarrow> Some (e, Some n)
             | _ \<Rightarrow> None)
          else (case parse_expr ts of
                  Some e \<Rightarrow> Some (e, None)
                | None \<Rightarrow>
                    (case (parse_expr (rev (b # c # rest)), ident a) of
                       (Some e, Some n) \<Rightarrow> Some (e, Some n)
                     | _ \<Rightarrow> None))
      | [a, b] \<Rightarrow>
          (case (parse_expr [b], ident a) of
             (Some e, Some n) \<Rightarrow> Some (e, Some n)
           | _ \<Rightarrow> None)
      | _ \<Rightarrow> map_option (\<lambda>e. (e, None)) (parse_expr ts))"

definition parse_list :: "(token list \<Rightarrow> 'a option) \<Rightarrow> token list \<Rightarrow> 'a list option" where
  "parse_list f ts = those (map f (split_on TComma ts))"

definition parse_name :: "token list \<Rightarrow> string option" where
  "parse_name ts = (case ts of [t] \<Rightarrow> ident t | _ \<Rightarrow> None)"

definition parse_assign :: "token list \<Rightarrow> (string \<times> expr) option" where
  "parse_assign ts =
     (case ts of
        c # TEquals # e \<Rightarrow>
          (case (ident c, parse_expr e) of (Some n, Some x) \<Rightarrow> Some (n, x) | _ \<Rightarrow> None)
      | _ \<Rightarrow> None)"

text \<open>The clauses: \<open>None\<close> is a syntax error, \<open>Some None\<close> a clause that is not there.\<close>

definition parse_where :: "token list \<Rightarrow> (string \<times> expr) option option" where
  "parse_where ts =
     (case ts of
        [] \<Rightarrow> Some None
      | w # cond \<Rightarrow> if kw ''WHERE'' w then map_option Some (parse_assign cond) else None)"

definition parse_order :: "token list \<Rightarrow> (string \<times> direction) option option" where
  "parse_order ts =
     (case ts of
        [] \<Rightarrow> Some None
      | [o1, b, c] \<Rightarrow>
          if kw ''ORDER'' o1 \<and> kw ''BY'' b then map_option (\<lambda>n. Some (n, Asc)) (ident c) else None
      | [o1, b, c, d] \<Rightarrow>
          if kw ''ORDER'' o1 \<and> kw ''BY'' b \<and> (kw ''ASC'' d \<or> kw ''DESC'' d)
          then map_option (\<lambda>n. Some (n, if kw ''DESC'' d then Desc else Asc)) (ident c)
          else None
      | _ \<Rightarrow> None)"

definition parse_select :: "token list \<Rightarrow> stmt option" where
  "parse_select ts =
     (let items = until_kw ''FROM'' ts;
          sel = (if items = [TStar] then Some Star else map_option Items (parse_list parse_item items))
      in case (sel, from_kw ''FROM'' ts) of
           (Some (Items its), []) \<Rightarrow> Some (Select (Items its) None)
         | (Some s, f # t # rest) \<Rightarrow>
             (case (ident t, parse_where (until_kw ''ORDER'' rest),
                    parse_order (from_kw ''ORDER'' rest)) of
                (Some n, Some w, Some ob) \<Rightarrow> Some (Select s (Some (n, w, ob)))
              | _ \<Rightarrow> None)
         | _ \<Rightarrow> None)"

definition parse_insert :: "token list \<Rightarrow> stmt option" where
  "parse_insert ts =
     (case ts of
        i # t # LParen # rest \<Rightarrow>
          (case dropWhile (\<lambda>x. x \<noteq> RParen) rest of
             RParen # v # LParen # vals \<Rightarrow>
               if kw ''INTO'' i \<and> kw ''VALUES'' v \<and> vals \<noteq> [] \<and> last vals = RParen then
                 (case (ident t, parse_list parse_name (takeWhile (\<lambda>x. x \<noteq> RParen) rest),
                        parse_list parse_expr (butlast vals)) of
                    (Some n, Some cs, Some es) \<Rightarrow> Some (Insert n cs es)
                  | _ \<Rightarrow> None)
               else None
           | _ \<Rightarrow> None)
      | _ \<Rightarrow> None)"

definition parse_update :: "token list \<Rightarrow> stmt option" where
  "parse_update ts =
     (case ts of
        t # s # rest \<Rightarrow>
          if kw ''SET'' s then
            (case (ident t, parse_list parse_assign (until_kw ''WHERE'' rest),
                   parse_where (from_kw ''WHERE'' rest)) of
               (Some n, Some sets, Some w) \<Rightarrow> Some (Update n sets w)
             | _ \<Rightarrow> None)
          else None
      | _ \<Rightarrow> None)"

definition parse_delete :: "token list \<Rightarrow> stmt option" where
  "parse_delete ts =
     (case ts of
        f # t # rest \<Rightarrow>
          if kw ''FROM'' f then
            (case (ident t, parse_where rest) of
               (Some n, Some w) \<Rightarrow> Some (Delete n w)
             | _ \<Rightarrow> None)
          else None
      | _ \<Rightarrow> None)"

definition parse_stmt :: "token list \<Rightarrow> stmt option" where
  "parse_stmt ts =
     (case ts of
        k # rest \<Rightarrow>
          if kw ''SELECT'' k then parse_select rest
          else if kw ''INSERT'' k then parse_insert rest
          else if kw ''UPDATE'' k then parse_update rest
          else if kw ''DELETE'' k then parse_delete rest
          else None
      | [] \<Rightarrow> None)"

text \<open>The batch of a text: its statements, an empty statement between two \<open>;\<close> left out.\<close>

definition parse_sql :: "string \<Rightarrow> stmt list option" where
  "parse_sql s =
     (case lex Idle s of
        None \<Rightarrow> None
      | Some ts \<Rightarrow> those (map parse_stmt (filter (\<lambda>g. g \<noteq> []) (split_on TSemi ts))))"

subsection \<open>Values and parameters\<close>

text \<open>Modelled from the spec: the values of the store, NULL among them.\<close>

datatype sqlval = VInt int | VDec rat | VText string | VNull

text \<open>
  The value of a bound input under its declared type: NULL for \<open>undefined\<close> and \<open>null\<close>,
  and otherwise what the driver makes of it, or the driver's error.
\<close>

definition coerce :: "driver \<Rightarrow> string \<Rightarrow> sqltype \<Rightarrow> jsval \<Rightarrow> string + sqlval" where
  "coerce d n ty v =
     (if nullish v then Inr VNull
      else case ty of
        sql_Int \<Rightarrow> (case to_int d v of Some i \<Rightarrow> Inr (VInt i) | None \<Rightarrow> Inl (refusal d n ty v))
      | sql_NVarChar \<Rightarrow>
          (case to_nvarchar d v of Some s \<Rightarrow> Inr (VText s) | None \<Rightarrow> Inl (refusal d n ty v))
      | sql_Decimal _ _ \<Rightarrow>
          (case to_decimal d v of Some r \<Rightarrow> Inr (VDec r) | None \<Rightarrow> Inl (refusal d n ty v)))"

text \<open>All the inputs are validated, in the order of their binding, before the text is sent.\<close>

fun bind :: "driver \<Rightarrow> (string \<times> sqltype \<times> jsval) list \<Rightarrow> string + (string \<times> sqlval) list" where
  "bind d [] = Inr []"
| "bind d ((n, ty, v) # rest) =
     (case coerce d n ty v of
        Inl e \<Rightarrow> Inl e
      | Inr x \<Rightarrow> (case bind d rest of Inl e \<Rightarrow> Inl e | Inr ps \<Rightarrow> Inr ((upper n, x) # ps)))"

text \<open>A parameter of a statement, by name: the last value bound under the name.\<close>

definition param :: "(string \<times> sqlval) list \<Rightarrow> string \<Rightarrow> sqlval option" where
  "param ps p = map_of (rev ps) (upper p)"

definition json_of :: "sqlval \<Rightarrow> jsval" where
  "json_of v = (case v of VInt i \<Rightarrow> JNum (of_int i) | VDec r \<Rightarrow> JNum r | VText s \<Rightarrow> JStr s | VNull \<Rightarrow> JNull)"

subsection \<open>The columns of the table\<close>

text \<open>
  Modelled from the spec: the one table \<open>Products\<close> and its five columns, named without
  regard to case.
\<close>

definition column_names :: "string list" where
  "column_names = [''id'', ''name'', ''price'', ''qty'', ''description'']"

definition is_table :: "string \<Rightarrow> bool" where
  "is_table n \<longleftrightarrow> upper n = ''PRODUCTS''"

definition is_column :: "string \<Rightarrow> bool" where
  "is_column c \<longleftrightarrow> upper c \<in> set (map upper column_names)"

text \<open>The name of a column as the table spells it, which is how a result row names it.\<close>

definition column_name :: "string \<Rightarrow> string" where
  "column_name c = (case find (\<lambda>n. upper n = upper c) column_names of Some n \<Rightarrow> n | None \<Rightarrow> c)"

definition column :: "string \<Rightarrow> product \<Rightarrow> sqlval" where
  "column c r =
     (let u = upper c
      in if u = ''ID'' then VInt (prod_id r)
         else if u = ''NAME'' then VText (prod_name r)
         else if u = ''PRICE'' then VDec (prod_price r)
         else if u = ''QTY'' then VInt (prod_qty r)
         else if u = ''DESCRIPTION'' then VText (prod_description r)
         else VNull)"

text \<open>Text columns and number columns; a comparison or an assignment across the two is
  refused (the implicit conversions of the server between text and numbers are left out).\<close>

definition text_column :: "string \<Rightarrow> bool" where
  "text_column c \<longleftrightarrow> upper c = ''NAME'' \<or> upper c = ''DESCRIPTION''"

fun is_text :: "sqlval \<Rightarrow> bool" where
  "is_text (VText s) = True"
| "is_text v = False"

fun is_number :: "sqlval \<Rightarrow> bool" where
  "is_number (VInt i) = True"
| "is_number (VDec r) = True"
| "is_number v = False"

definition toward_zero :: "rat \<Rightarrow> int" where
  "toward_zero r = (if 0 \<le> r then \<lfloor>r\<rfloor> else \<lceil>r\<rceil>)"

fun number_of :: "sqlval \<Rightarrow> rat" where
  "number_of (VInt i) = of_int i"
| "number_of (VDec r) = r"
| "number_of v = 0"

subsection \<open>Expressions and conditions\<close>

text \<open>
  Modelled from the spec: how the store evaluates, compares and orders.
  The value of an expression, given the parameters, the last id generated in the batch
  (\<open>SCOPE_IDENTITY()\<close>, NULL when there is none) and the row at hand if there is one.
\<close>

fun value_of :: "(string \<times> sqlval) list \<Rightarrow> int option \<Rightarrow> product option \<Rightarrow> expr \<Rightarrow> sqlval" where
  "value_of ps li r (EParam p) = (case param ps p of Some v \<Rightarrow> v | None \<Rightarrow> VNull)"
| "value_of ps li r (EInt n) = VInt n"
| "value_of ps li r (ECol c) = (case r of Some x \<Rightarrow> column c x | None \<Rightarrow> VNull)"
| "value_of ps li r EScopeIdentity = (case li of Some i \<Rightarrow> VInt i | None \<Rightarrow> VNull)"

text \<open>Equality as a condition states it: never true of NULL.\<close>

definition sql_eq :: "sqlval \<Rightarrow> sqlval \<Rightarrow> bool" where
  "sql_eq a b \<longleftrightarrow>
     (is_number a \<and> is_number b \<and> number_of a = number_of b)
     \<or> (case (a, b) of (VText x, VText y) \<Rightarrow> x = y | _ \<Rightarrow> False)"

definition matches ::
    "(string \<times> sqlval) list \<Rightarrow> int option \<Rightarrow> (string \<times> expr) option \<Rightarrow> product \<Rightarrow> bool" where
  "matches ps li w r =
     (case w of None \<Rightarrow> True | Some (c, e) \<Rightarrow> sql_eq (column c r) (value_of ps li (Some r) e))"

text \<open>The order of \<open>ORDER BY\<close>: NULL first, numbers by value, text by its characters.\<close>

fun text_le :: "string \<Rightarrow> string \<Rightarrow> bool" where
  "text_le [] ys = True"
| "text_le (x # xs) [] = False"
| "text_le (x # xs) (y # ys) =
     ((of_char x :: nat) < of_char y \<or> (of_char x :: nat) = of_char y \<and> text_le xs ys)"

fun sql_le :: "sqlval \<Rightarrow> sqlval \<Rightarrow> bool" where
  "sql_le VNull b = True"
| "sql_le a VNull = False"
| "sql_le (VText x) (VText y) = text_le x y"
| "sql_le (VText x) b = False"
| "sql_le a (VText y) = True"
| "sql_le a b = (number_of a \<le> number_of b)"

fun insort_by :: "('a \<Rightarrow> 'a \<Rightarrow> bool) \<Rightarrow> 'a \<Rightarrow> 'a list \<Rightarrow> 'a list" where
  "insort_by le x [] = [x]"
| "insort_by le x (y # ys) = (if le x y then x # y # ys else y # insort_by le x ys)"

definition sort_by :: "('a \<Rightarrow> 'a \<Rightarrow> bool) \<Rightarrow> 'a list \<Rightarrow> 'a list" where
  "sort_by le xs = foldr (insort_by le) xs []"

definition ordered :: "(string \<times> direction) option \<Rightarrow> product list \<Rightarrow> product list" where
  "ordered ob rs =
     (case ob of
        None \<Rightarrow> rs
      | Some (c, Asc) \<Rightarrow> sort_by (\<lambda>a b. sql_le (column c a) (column c b)) rs
      | Some (c, Desc) \<Rightarrow> sort_by (\<lambda>a b. sql_le (column c b) (column c a)) rs)"

subsection \<open>Result rows\<close>

text \<open>
  Modelled from the spec: a row of a result set, an object with one property per item of
  the SELECT, under the item's alias or the column's name; \<open>*\<close> is all the columns.
\<close>

definition item_name :: "expr \<times> string option \<Rightarrow> string" where
  "item_name it =
     (case snd it of
        Some a \<Rightarrow> a
      | None \<Rightarrow> (case fst it of ECol c \<Rightarrow> column_name c | _ \<Rightarrow> []))"

definition project ::
    "(string \<times> sqlval) list \<Rightarrow> int option \<Rightarrow> selection \<Rightarrow> product option \<Rightarrow> jsval" where
  "project ps li sel r =
     (case sel of
        Star \<Rightarrow> (case r of Some x \<Rightarrow> row_json x | None \<Rightarrow> JObj [])
      | Items its \<Rightarrow> JObj (map (\<lambda>it. (item_name it, json_of (value_of ps li r (fst it)))) its))"

subsection \<open>Writing rows\<close>

text \<open>
  Modelled from the spec: what a column takes. A text column takes text, the price a
  number, the qty a number cut to its integer part.
\<close>

definition as_text :: "sqlval \<Rightarrow> string option" where
  "as_text v = (case v of VText s \<Rightarrow> Some s | _ \<Rightarrow> None)"

definition as_decimal :: "sqlval \<Rightarrow> rat option" where
  "as_decimal v = (if is_number v then Some (number_of v) else None)"

definition as_int :: "sqlval \<Rightarrow> int option" where
  "as_int v = (if is_number v then Some (toward_zero (number_of v)) else None)"

definition cannot_store :: "string \<Rightarrow> string" where
  "cannot_store c = ''Cannot store the value in column '' @ [CHR 0x27] @ column_name c @ [CHR 0x27]"

text \<open>
  A column of a row set to a value: the id cannot be written, no column takes NULL, and
  a column takes the values of its kind only.
\<close>

definition set_column :: "string \<Rightarrow> sqlval \<Rightarrow> product \<Rightarrow> string + product" where
  "set_column c v r =
     (let u = upper c
      in if u = ''NAME'' then
           (case as_text v of Some s \<Rightarrow> Inr (r\<lparr>prod_name := s\<rparr>) | None \<Rightarrow> Inl (cannot_store c))
         else if u = ''PRICE'' then
           (case as_decimal v of Some p \<Rightarrow> Inr (r\<lparr>prod_price := p\<rparr>) | None \<Rightarrow> Inl (cannot_store c))
         else if u = ''QTY'' then
           (case as_int v of Some k \<Rightarrow> Inr (r\<lparr>prod_qty := k\<rparr>) | None \<Rightarrow> Inl (cannot_store c))
         else if u = ''DESCRIPTION'' then
           (case as_text v of Some s \<Rightarrow> Inr (r\<lparr>prod_description := s\<rparr>) | None \<Rightarrow> Inl (cannot_store c))
         else Inl (cannot_store c))"

text \<open>The assignments of an UPDATE on one row; each right-hand side reads the row as it was.\<close>

fun assign_all ::
    "(string \<times> sqlval) list \<Rightarrow> int option \<Rightarrow> product \<Rightarrow> (string \<times> expr) list \<Rightarrow> product
       \<Rightarrow> string + product" where
  "assign_all ps li old [] r = Inr r"
| "assign_all ps li old ((c, e) # rest) r =
     (case set_column c (value_of ps li (Some old) e) r of
        Inl err \<Rightarrow> Inl err
      | Inr r' \<Rightarrow> assign_all ps li old rest r')"

fun update_rows ::
    "(string \<times> sqlval) list \<Rightarrow> int option \<Rightarrow> (string \<times> expr) list \<Rightarrow> (string \<times> expr) option
       \<Rightarrow> product list \<Rightarrow> string + product list" where
  "update_rows ps li sets w [] = Inr []"
| "update_rows ps li sets w (r # rs) =
     (case (if matches ps li w r then assign_all ps li r sets r else Inr r) of
        Inl err \<Rightarrow> Inl err
      | Inr r' \<Rightarrow> (case update_rows ps li sets w rs of Inl err \<Rightarrow> Inl err | Inr rs' \<Rightarrow> Inr (r' # rs')))"

text \<open>
  The row of an INSERT under a new id: every column but the id is named once and given a
  value of its kind.
\<close>

definition new_row :: "int \<Rightarrow> (string \<times> sqlval) list \<Rightarrow> string + product" where
  "new_row i kvs =
     (if \<not> distinct (map fst kvs) \<or> ''ID'' \<in> set (map fst kvs) then Inl (cannot_store ''id'')
      else case (Option.bind (map_of kvs ''NAME'') as_text,
                 Option.bind (map_of kvs ''PRICE'') as_decimal,
                 Option.bind (map_of kvs ''QTY'') as_int,
                 Option.bind (map_of kvs ''DESCRIPTION'') as_text) of
             (Some n, Some p, Some k, Some ds) \<Rightarrow>
               Inr \<lparr>prod_id = i, prod_name = n, prod_price = p, prod_qty = k, prod_description = ds\<rparr>
           | _ \<Rightarrow> Inl ''Cannot insert the row into table Products'')"

subsection \<open>Checking a statement against the table\<close>

text \<open>
  Modelled from the spec: the errors that the store raises before it runs a batch: a
  parameter that was not bound, a column or a table that does not exist, a comparison
  between text and a number.
\<close>

definition undeclared :: "string \<Rightarrow> string" where
  "undeclared p = ''Must declare the scalar variable '' @ [CHR 0x22] @ ''@'' @ p @ [CHR 0x22] @ ''.''"

definition invalid_column :: "string \<Rightarrow> string" where
  "invalid_column c = ''Invalid column name '' @ [CHR 0x27] @ c @ [CHR 0x27] @ ''.''"

definition invalid_object :: "string \<Rightarrow> string" where
  "invalid_object n = ''Invalid object name '' @ [CHR 0x27] @ n @ [CHR 0x27] @ ''.''"

text \<open>The first error of a list of checks, if there is one.\<close>

definition first_error :: "string option list \<Rightarrow> string option" where
  "first_error es = (case List.map_filter id es of [] \<Rightarrow> None | e # _ \<Rightarrow> Some e)"

fun check_expr :: "(string \<times> sqlval) list \<Rightarrow> bool \<Rightarrow> expr \<Rightarrow> string option" where
  "check_expr ps has_row (EParam p) = (if param ps p = None then Some (undeclared p) else None)"
| "check_expr ps has_row (ECol c) = (if has_row \<and> is_column c then None else Some (invalid_column c))"
| "check_expr ps has_row e = None"

definition check_column :: "string \<Rightarrow> string option" where
  "check_column c = (if is_column c then None else Some (invalid_column c))"

definition check_table :: "string \<Rightarrow> string option" where
  "check_table n = (if is_table n then None else Some (invalid_object n))"

text \<open>A condition compares a column with a value of its kind, or with NULL.\<close>

definition check_where :: "(string \<times> sqlval) list \<Rightarrow> (string \<times> expr) option \<Rightarrow> string option" where
  "check_where ps w =
     (case w of
        None \<Rightarrow> None
      | Some (c, e) \<Rightarrow>
          first_error
            [check_column c, check_expr ps True e,
             (case e of
                EParam p \<Rightarrow>
                  (case param ps p of
                     Some v \<Rightarrow>
                       if v = VNull \<or> is_text v = text_column c then None
                       else Some ''Conversion failed when comparing the column with the parameter''
                   | None \<Rightarrow> None)
              | EInt n \<Rightarrow> if text_column c
                           then Some ''Conversion failed when comparing the column with the number''
                           else None
              | ECol c' \<Rightarrow> if text_column c = text_column c' then None
                            else Some ''Conversion failed when comparing the columns''
              | EScopeIdentity \<Rightarrow> if text_column c
                           then Some ''Conversion failed when comparing the column with the number''
                           else None)])"

definition check_stmt :: "(string \<times> sqlval) list \<Rightarrow> stmt \<Rightarrow> string option" where
  "check_stmt ps s =
     (case s of
        Select sel None \<Rightarrow>
          (case sel of Star \<Rightarrow> Some ''Must specify table to select from.''
                     | Items its \<Rightarrow> first_error (map (\<lambda>it. check_expr ps False (fst it)) its))
      | Select sel (Some (n, w, ob)) \<Rightarrow>
          first_error
            ([check_table n]
             @ (case sel of Star \<Rightarrow> [] | Items its \<Rightarrow> map (\<lambda>it. check_expr ps True (fst it)) its)
             @ [check_where ps w, (case ob of None \<Rightarrow> None | Some (c, d) \<Rightarrow> check_column c)])
      | Insert n cs es \<Rightarrow>
          first_error
            ([check_table n] @ map check_column cs @ map (check_expr ps False) es
             @ [if length cs = length es then None
                else Some ''The number of columns does not match the number of values.''])
      | Update n sets w \<Rightarrow>
          first_error
            ([check_table n] @ map (\<lambda>a. check_column (fst a)) sets
             @ map (\<lambda>a. check_expr ps True (snd a)) sets @ [check_where ps w])
      | Delete n w \<Rightarrow> first_error [check_table n, check_where ps w])"

subsection \<open>Running a batch\<close>

text \<open>
  Modelled from the spec: the run of one statement. It gives the statement's result set
  if it has one, its count of rows, the table after it and the last id generated so far.
\<close>

definition run_stmt ::
    "(string \<times> sqlval) list \<Rightarrow> int option \<Rightarrow> stmt \<Rightarrow> products_table
       \<Rightarrow> string + (jsval list option \<times> nat \<times> products_table \<times> int option)" where
  "run_stmt ps li s t =
     (case s of
        Select sel None \<Rightarrow> Inr (Some [project ps li sel None], 1, t, li)
      | Select sel (Some (n, w, ob)) \<Rightarrow>
          (let rs = ordered ob (filter (matches ps li w) (rows t))
           in Inr (Some (map (\<lambda>r. project ps li sel (Some r)) rs), length rs, t, li))
      | Insert n cs es \<Rightarrow>
          (case new_row (identity t) (zip (map upper cs) (map (value_of ps li None) es)) of
             Inl err \<Rightarrow> Inl err
           | Inr r \<Rightarrow>
               Inr (None, 1, t\<lparr>rows := rows t @ [r], identity := identity t + 1\<rparr>,
                    Some (identity t)))
      | Update n sets w \<Rightarrow>
          (case update_rows ps li sets w (rows t) of
             Inl err \<Rightarrow> Inl err
           | Inr rs \<Rightarrow> Inr (None, length (filter (matches ps li w) (rows t)), t\<lparr>rows := rs\<rparr>, li))
      | Delete n w \<Rightarrow>
          Inr (None, length (filter (matches ps li w) (rows t)),
               t\<lparr>rows := filter (\<lambda>r. \<not> matches ps li w r) (rows t)\<rparr>, li))"

text \<open>
  Modelled from the spec: the run of a batch, statement by statement. The result has the
  first result set of the batch (no
  rows when no statement has one) and the counts of all the statements. A statement that
  fails ends the batch with its error; what the statements before it wrote stays written.
\<close>

fun run_batch ::
    "(string \<times> sqlval) list \<Rightarrow> stmt list \<Rightarrow> int option \<Rightarrow> jsval list option \<Rightarrow> nat list
       \<Rightarrow> products_table \<Rightarrow> (string + query_result) \<times> products_table" where
  "run_batch ps [] li first counts t =
     (Inr \<lparr>recordset = (case first of None \<Rightarrow> [] | Some rs \<Rightarrow> rs), rowsAffected = counts\<rparr>, t)"
| "run_batch ps (s # rest) li first counts t =
     (case run_stmt ps li s t of
        Inl err \<Rightarrow> (Inl err, t)
      | Inr (rs, n, t', li') \<Rightarrow>
          run_batch ps rest li' (case first of None \<Rightarrow> rs | Some x \<Rightarrow> first) (counts @ [n]) t')"

text \<open>
  Modelled from the spec: the pool of this store. The inputs are validated, the text is
  parsed and checked against the table, and the batch is run; an error at any of these
  rejects the query.
\<close>

definition products_db :: "driver \<Rightarrow> products_table pool" where
  "products_db d q t =
     (case bind d (bound q) of
        Inl err \<Rightarrow> (Inl err, t)
      | Inr ps \<Rightarrow>
          (case parse_sql (sql_text q) of
             None \<Rightarrow> (Inl ''Incorrect syntax'', t)
           | Some batch \<Rightarrow>
               (case first_error (map (check_stmt ps) batch) of
                  Some err \<Rightarrow> (Inl err, t)
                | None \<Rightarrow> run_batch ps batch None None [] t)))"

section \<open>The driver's coercion\<close>

text \<open>
  Modelled from the spec: the coercion of a bound value to its declared type, made
  concrete. The mssql package hands the bound inputs to its driver (tedious), which is not
  code of the repository; its validation is written out here and used wherever a concrete
  store is run. For \<open>Int\<close>, a value that is not a number goes through \<open>Number\<close>, NaN is
  refused, so is a value outside 32 bits, and the rest is cut toward zero. For
  \<open>Decimal(10,2)\<close>, the value goes through \<open>parseFloat\<close>, NaN is refused, the number is
  rounded to hundredths, half away from zero, and a number that ten digits do not hold is
  refused with the server's overflow error. For \<open>NVarChar\<close>, a string is taken and
  everything else refused. Numbers are exact here: the rounding of the runtime's floating
  point is left out. The sign of \<open>JInfinity\<close> is \<open>True\<close> when negative. The theorems
  that hold for every driver do not depend on this one.
\<close>

subsection \<open>Numbers from strings\<close>

text \<open>
  Modelled from the spec: the runtime's reading of a number in a string, which the
  driver's coercion goes through. The exponent of a decimal literal, and what follows it:
  none when it is malformed.
\<close>

definition exponent :: "string \<Rightarrow> int \<times> string" where
  "exponent s =
     (case s of
        e # rest \<Rightarrow>
          if e = CHR ''e'' \<or> e = CHR ''E'' then
            (let neg = (case rest of c # _ \<Rightarrow> c = CHR ''-'' | [] \<Rightarrow> False);
                 signed = (case rest of c # _ \<Rightarrow> c = CHR ''-'' \<or> c = CHR ''+'' | [] \<Rightarrow> False);
                 ds = (if signed then tl rest else rest);
                 n = int (digits_value 10 (takeWhile is_digit ds))
             in if takeWhile is_digit ds = [] then (0, s)
                else (if neg then - n else n, dropWhile is_digit ds))
          else (0, s)
      | [] \<Rightarrow> (0, s))"

definition scale10 :: "rat \<Rightarrow> int \<Rightarrow> rat" where
  "scale10 m e = (if 0 \<le> e then m * 10 ^ nat e else m / 10 ^ nat (- e))"

definition starts_with :: "string \<Rightarrow> string \<Rightarrow> bool" where
  "starts_with p s \<longleftrightarrow> take (length p) s = p"

text \<open>
  A decimal literal with its sign: \<open>Infinity\<close>, or digits with a fraction or not and an
  exponent or not. Read strictly, the whole string must be the literal (\<open>Number\<close>);
  otherwise the longest literal at its start counts (\<open>parseFloat\<close>).
\<close>

definition decimal_literal :: "bool \<Rightarrow> string \<Rightarrow> jsval" where
  "decimal_literal strict s =
     (let neg = (case s of c # _ \<Rightarrow> c = CHR ''-'' | [] \<Rightarrow> False);
          signed = (case s of c # _ \<Rightarrow> c = CHR ''-'' \<or> c = CHR ''+'' | [] \<Rightarrow> False);
          u = (if signed then tl s else s)
      in if starts_with ''Infinity'' u then
           (if strict \<and> u \<noteq> ''Infinity'' then JNaN else JInfinity neg)
         else
           (let ip = takeWhile is_digit u;
                r1 = dropWhile is_digit u;
                dotted = (case r1 of c # _ \<Rightarrow> c = CHR ''.'' | [] \<Rightarrow> False);
                fp = (if dotted then takeWhile is_digit (tl r1) else []);
                r2 = (if dotted then dropWhile is_digit (tl r1) else r1);
                m = of_nat (digits_value 10 (ip @ fp)) / 10 ^ length fp;
                ex = exponent r2
            in if ip = [] \<and> fp = [] then JNaN
               else if strict \<and> snd ex \<noteq> [] then JNaN
               else JNum (scale10 (if neg then - m else m) (fst ex))))"

definition trim :: "string \<Rightarrow> string" where
  "trim s = rev (dropWhile is_space (rev (dropWhile is_space s)))"

definition radix_digit :: "nat \<Rightarrow> char \<Rightarrow> bool" where
  "radix_digit radix c \<longleftrightarrow> (is_digit c \<or> is_letter c) \<and> digit_of c < radix"

definition radix_literal :: "nat \<Rightarrow> string \<Rightarrow> jsval" where
  "radix_literal radix ds =
     (if ds \<noteq> [] \<and> list_all (radix_digit radix) ds then JNum (of_nat (digits_value radix ds))
      else JNaN)"

text \<open>\<open>Number(s)\<close> for a string \<open>s\<close>.\<close>

definition string_to_number :: "string \<Rightarrow> jsval" where
  "string_to_number s =
     (let t = trim s
      in if t = [] then JNum 0
         else if starts_with ''0x'' t \<or> starts_with ''0X'' t then radix_literal 16 (drop 2 t)
         else if starts_with ''0o'' t \<or> starts_with ''0O'' t then radix_literal 8 (drop 2 t)
         else if starts_with ''0b'' t \<or> starts_with ''0B'' t then radix_literal 2 (drop 2 t)
         else decimal_literal True t)"

text \<open>
  \<open>Number(v)\<close>. An array goes through its string: the empty array is \<open>""\<close>, an array of
  one element is that element's string (\<open>""\<close> for \<open>undefined\<close> and \<open>null\<close>), and a longer
  one has a comma in it, which no number has.
\<close>

fun to_number :: "jsval \<Rightarrow> jsval" where
  "to_number JUndefined = JNaN"
| "to_number JNull = JNum 0"
| "to_number (JBool b) = JNum (if b then 1 else 0)"
| "to_number (JNum r) = JNum r"
| "to_number JNaN = JNaN"
| "to_number (JInfinity s) = JInfinity s"
| "to_number (JStr s) = string_to_number s"
| "to_number (JArr []) = JNum 0"
| "to_number (JArr [v]) =
     (case v of
        JUndefined \<Rightarrow> JNum 0
      | JNull \<Rightarrow> JNum 0
      | JBool b \<Rightarrow> JNaN
      | _ \<Rightarrow> to_number v)"
| "to_number (JArr (v # w # rest)) = JNaN"
| "to_number (JObj kvs) = JNaN"

text \<open>
  \<open>parseFloat(v)\<close>: the number at the start of the string of \<open>v\<close>, after white space. The
  string of an array starts with the string of its first element.
\<close>

fun parse_float :: "jsval \<Rightarrow> jsval" where
  "parse_float (JNum r) = JNum r"
| "parse_float JNaN = JNaN"
| "parse_float (JInfinity s) = JInfinity s"
| "parse_float (JStr s) = decimal_literal False (dropWhile is_space s)"
| "parse_float (JArr (v # rest)) =
     (case v of
        JUndefined \<Rightarrow> JNaN
      | JNull \<Rightarrow> JNaN
      | _ \<Rightarrow> parse_float v)"
| "parse_float v = JNaN"

subsection \<open>The three types\<close>

text \<open>Modelled from the spec: the three declared types of the handlers' inputs.\<close>

definition int_min :: rat where "int_min = - 2147483648"

definition int_max :: rat where "int_max = 2147483647"

definition tedious_int :: "jsval \<Rightarrow> int option" where
  "tedious_int v =
     (case to_number v of
        JNum r \<Rightarrow> if r < int_min \<or> int_max < r then None else Some (toward_zero r)
      | _ \<Rightarrow> None)"

text \<open>\<open>Decimal(10,2)\<close>: hundredths, below ten digits.\<close>

definition hundredths :: "rat \<Rightarrow> int" where
  "hundredths r = \<lfloor>\<bar>r\<bar> * 100 + 1 / 2\<rfloor>"

definition tedious_decimal :: "jsval \<Rightarrow> rat option" where
  "tedious_decimal v =
     (case parse_float v of
        JNum r \<Rightarrow>
          if hundredths r < 10 ^ 10
          then Some ((if r < 0 then - of_int (hundredths r) else of_int (hundredths r)) / 100)
          else None
      | _ \<Rightarrow> None)"

definition tedious_nvarchar :: "jsval \<Rightarrow> string option" where
  "tedious_nvarchar v = (case v of JStr s \<Rightarrow> Some s | _ \<Rightarrow> None)"

text \<open>
  The message of a refused input, as the driver words it:
  \<open>Validation failed for parameter 'id'. Invalid number.\<close>
\<close>

definition validation_failed :: "string \<Rightarrow> string \<Rightarrow> string" where
  "validation_failed n why =
     ''Validation failed for parameter '' @ [CHR 0x27] @ n @ [CHR 0x27] @ ''. '' @ why"

definition tedious_refusal :: "string \<Rightarrow> sqltype \<Rightarrow> jsval \<Rightarrow> string" where
  "tedious_refusal n ty v =
     (case ty of
        sql_NVarChar \<Rightarrow> validation_failed n ''Invalid string.''
      | sql_Int \<Rightarrow>
          (case to_number v of
             JNaN \<Rightarrow> validation_failed n ''Invalid number.''
           | _ \<Rightarrow> validation_failed n
                    ''Value must be between -2147483648 and 2147483647, inclusive.'')
      | sql_Decimal p s \<Rightarrow>
          (case parse_float v of
             JNaN \<Rightarrow> validation_failed n ''Invalid number.''
           | _ \<Rightarrow> ''Arithmetic overflow error converting numeric to data type numeric.''))"

definition tedious :: driver where
  "tedious =
     \<lparr>to_int = tedious_int, to_decimal = tedious_decimal, to_nvarchar = tedious_nvarchar,
      refusal = tedious_refusal\<rparr>"

text \<open>A pool whose every query is rejected with the same error, the store untouched.\<close>

definition failing_pool :: "string \<Rightarrow> 'db pool" where
  "failing_pool msg q s = (Inl msg, s)"

section \<open>The statements of the handlers\<close>

text \<open>
  Names for the statement that each handler builds from a request: the text passed to
  \<open>query\<close> and the inputs bound before it, in the order of the \<open>input\<close> calls.
\<close>

definition list_query :: query where
  "list_query = \<lparr>sql_text = SQL_LIST, bound = []\<rparr>"

definition get_query :: "request \<Rightarrow> query" where
  "get_query req = \<lparr>sql_text = SQL_GET, bound = [(''id'', sql_Int, JStr (params_id req))]\<rparr>"

definition insert_query :: "request \<Rightarrow> query" where
  "insert_query req =
     \<lparr>sql_text = SQL_INSERT,
      bound = [(''name'', sql_NVarChar, field (body req) ''name''),
               (''price'', sql_Decimal 10 2, field (body req) ''price''),
               (''qty'', sql_Int, field (body req) ''qty''),
               (''description'', sql_NVarChar, js_or (field (body req) ''description'') (JStr ''''))]\<rparr>"

definition update_query :: "request \<Rightarrow> query" where
  "update_query req =
     \<lparr>sql_text = SQL_UPDATE,
      bound = [(''id'', sql_Int, JStr (params_id req)),
               (''name'', sql_NVarChar, field (body req) ''name''),
               (''price'', sql_Decimal 10 2, field (body req) ''price''),
               (''qty'', sql_Int, field (body req) ''qty''),
               (''description'', sql_NVarChar, js_or (field (body req) ''description'') (JStr ''''))]\<rparr>"

definition delete_query :: "request \<Rightarrow> query" where
  "delete_query req = \<lparr>sql_text = SQL_DELETE, bound = [(''id'', sql_Int, JStr (params_id req))]\<rparr>"

text \<open>The test of lines 122 and 173, negated: the body passes it.\<close>

definition required_present :: "request \<Rightarrow> bool" where
  "required_present req \<longleftrightarrow>
     truthy (field (body req) ''name'') \<and> truthy (field (body req) ''price'')
     \<and> truthy (field (body req) ''qty'')"

text \<open>The world after a query: the store as the pool left it, the statement logged.\<close>

definition after_query :: "query \<Rightarrow> 'db \<Rightarrow> 'db world \<Rightarrow> 'db world" where
  "after_query q s' w = w\<lparr>store := s', issued := issued w @ [q]\<rparr>"

section \<open>The paths through a handler\<close>

text \<open>
  One equation for each path: the promise rejected, the handle undefined, the query
  rejected, the query answered, and for POST and PUT the body refused.
\<close>

lemmas plumbing =
  await_def pool_request_def input_def run_query_def after_query_def Let_def

lemma respond_simps:
  "store (respond st b w) = store w"
  "issued (respond st b w) = issued w"
  "sent (respond st b w) = sent w @ [\<lparr>status = st, content = b\<rparr>]"
  by (simp_all add: respond_def)

lemma after_query_simps:
  "store (after_query q s' w) = s'"
  "issued (after_query q s' w) = issued w @ [q]"
  "sent (after_query q s' w) = sent w"
  by (simp_all add: after_query_def)

lemma destructure_body:
  "\<not> nullish b \<Longrightarrow>
   destructure b = Inr (field b ''name'', field b ''price'', field b ''description'', field b ''qty'')"
  by (simp add: destructure_def)

lemma required_present_body: "required_present req \<Longrightarrow> \<not> nullish (body req)"
  by (cases "body req") (simp_all add: required_present_def)

lemma destructure_present:
  "required_present req \<Longrightarrow>
   destructure (body req) =
     Inr (field (body req) ''name'', field (body req) ''price'', field (body req) ''description'',
          field (body req) ''qty'')"
  by (simp add: destructure_body required_present_body)

subsection \<open>get_products\<close>

lemma get_products_rejected:
  "get_products (Rejected e) req w = respond 500 (Text e) w"
  by (simp add: get_products_def await_def)

lemma get_products_undefined:
  "get_products (Fulfilled None) req w = respond 500 (Text (cannot_read ''undefined'' ''request'')) w"
  by (simp add: get_products_def await_def pool_request_def)

lemma get_products_error:
  "pool list_query (store w) = (Inl e, s') \<Longrightarrow>
   get_products (Fulfilled (Some pool)) req w = respond 500 (Text e) (after_query list_query s' w)"
  by (simp add: get_products_def list_query_def plumbing)

lemma get_products_result:
  "pool list_query (store w) = (Inr result, s') \<Longrightarrow>
   get_products (Fulfilled (Some pool)) req w =
     respond 200 (Json (JArr (recordset result))) (after_query list_query s' w)"
  by (simp add: get_products_def list_query_def plumbing)

subsection \<open>get_product\<close>

lemma get_product_rejected:
  "get_product (Rejected e) req w = respond 500 (Text e) w"
  by (simp add: get_product_def await_def)

lemma get_product_undefined:
  "get_product (Fulfilled None) req w = respond 500 (Text (cannot_read ''undefined'' ''request'')) w"
  by (simp add: get_product_def await_def pool_request_def)

lemma get_product_error:
  "pool (get_query req) (store w) = (Inl e, s') \<Longrightarrow>
   get_product (Fulfilled (Some pool)) req w = respond 500 (Text e) (after_query (get_query req) s' w)"
  by (simp add: get_product_def get_query_def plumbing)

lemma get_product_result:
  "pool (get_query req) (store w) = (Inr result, s') \<Longrightarrow>
   get_product (Fulfilled (Some pool)) req w =
     (if recordset result = []
      then respond 404 (Text ''Product not found'') (after_query (get_query req) s' w)
      else respond 200 (Json (first_elem (recordset result))) (after_query (get_query req) s' w))"
  by (simp add: get_product_def get_query_def plumbing)

subsection \<open>post_product\<close>

lemma post_product_no_body:
  "nullish (body req) \<Longrightarrow>
   post_product pp req w =
     respond 500 (Text (cannot_destructure ''name'' ''req.body'' (nullish_name (body req)))) w"
  by (simp add: post_product_def destructure_def)

lemma post_product_invalid:
  "\<not> nullish (body req) \<Longrightarrow> \<not> required_present req \<Longrightarrow>
   post_product pp req w = respond 400 (Text ''Name and price are required'') w"
  by (auto simp: post_product_def destructure_body required_present_def Let_def)

lemma post_product_rejected:
  "required_present req \<Longrightarrow> post_product (Rejected e) req w = respond 500 (Text e) w"
  by (simp add: post_product_def destructure_present required_present_def await_def)

lemma post_product_undefined:
  "required_present req \<Longrightarrow>
   post_product (Fulfilled None) req w = respond 500 (Text (cannot_read ''undefined'' ''request'')) w"
  by (simp add: post_product_def destructure_present required_present_def await_def pool_request_def)

lemma post_product_error:
  "required_present req \<Longrightarrow> pool (insert_query req) (store w) = (Inl e, s') \<Longrightarrow>
   post_product (Fulfilled (Some pool)) req w = respond 500 (Text e) (after_query (insert_query req) s' w)"
  by (simp add: post_product_def destructure_present required_present_def insert_query_def plumbing)

lemma post_product_result:
  "required_present req \<Longrightarrow> pool (insert_query req) (store w) = (Inr result, s') \<Longrightarrow>
   post_product (Fulfilled (Some pool)) req w =
     (case get_prop (first_elem (recordset result)) ''id'' of
        Inl e \<Rightarrow> respond 500 (Text e) (after_query (insert_query req) s' w)
      | Inr i \<Rightarrow>
          respond 201 (Json (JObj [(''message'', JStr ''Product created successfully''), (''id'', i)]))
            (after_query (insert_query req) s' w))"
  by (simp add: post_product_def destructure_present required_present_def insert_query_def plumbing split: sum.splits)

subsection \<open>put_product\<close>

lemma put_product_no_body:
  "nullish (body req) \<Longrightarrow>
   put_product pp req w =
     respond 500 (Text (cannot_destructure ''name'' ''req.body'' (nullish_name (body req)))) w"
  by (simp add: put_product_def destructure_def)

lemma put_product_invalid:
  "\<not> nullish (body req) \<Longrightarrow> \<not> required_present req \<Longrightarrow>
   put_product pp req w = respond 400 (Text ''Name and price are required'') w"
  by (auto simp: put_product_def destructure_body required_present_def Let_def)

lemma put_product_rejected:
  "required_present req \<Longrightarrow> put_product (Rejected e) req w = respond 500 (Text e) w"
  by (simp add: put_product_def destructure_present required_present_def await_def)

lemma put_product_undefined:
  "required_present req \<Longrightarrow>
   put_product (Fulfilled None) req w = respond 500 (Text (cannot_read ''undefined'' ''request'')) w"
  by (simp add: put_product_def destructure_present required_present_def await_def pool_request_def)

lemma put_product_error:
  "required_present req \<Longrightarrow> pool (update_query req) (store w) = (Inl e, s') \<Longrightarrow>
   put_product (Fulfilled (Some pool)) req w = respond 500 (Text e) (after_query (update_query req) s' w)"
  by (simp add: put_product_def destructure_present required_present_def update_query_def plumbing)

lemma put_product_result:
  "required_present req \<Longrightarrow> pool (update_query req) (store w) = (Inr result, s') \<Longrightarrow>
   put_product (Fulfilled (Some pool)) req w =
     (if first_is_zero (rowsAffected result)
      then respond 404 (Text ''Product not found'') (after_query (update_query req) s' w)
      else respond 200 (Text ''Product updated successfully'') (after_query (update_query req) s' w))"
  by (simp add: put_product_def destructure_present required_present_def update_query_def plumbing)

subsection \<open>delete_product\<close>

lemma delete_product_rejected:
  "delete_product (Rejected e) req w = respond 500 (Text e) w"
  by (simp add: delete_product_def await_def)

lemma delete_product_undefined:
  "delete_product (Fulfilled None) req w = respond 500 (Text (cannot_read ''undefined'' ''request'')) w"
  by (simp add: delete_product_def await_def pool_request_def)

lemma delete_product_error:
  "pool (delete_query req) (store w) = (Inl e, s') \<Longrightarrow>
   delete_product (Fulfilled (Some pool)) req w = respond 500 (Text e) (after_query (delete_query req) s' w)"
  by (simp add: delete_product_def delete_query_def plumbing)

lemma delete_product_result:
  "pool (delete_query req) (store w) = (Inr result, s') \<Longrightarrow>
   delete_product (Fulfilled (Some pool)) req w =
     (if first_is_zero (rowsAffected result)
      then respond 404 (Text ''Product not found'') (after_query (delete_query req) s' w)
      else respond 200 (Text ''Product deleted successfully'') (after_query (delete_query req) s' w))"
  by (simp add: delete_product_def delete_query_def plumbing)

subsection \<open>What a handler submits\<close>

lemma get_products_issued:
  "issued (get_products pp req w) = issued w \<or> issued (get_products pp req w) = issued w @ [list_query]"
proof (cases pp)
  case (Rejected e)
  then show ?thesis by (simp add: get_products_rejected respond_simps)
next
  case (Fulfilled h)
  show ?thesis
  proof (cases h)
    case None
    with Fulfilled show ?thesis by (simp add: get_products_undefined respond_simps)
  next
    case (Some pool)
    obtain r s' where q: "pool list_query (store w) = (r, s')"
      by (cases "pool list_query (store w)")
    with Fulfilled Some show ?thesis
      by (cases r) (simp_all add: get_products_error get_products_result respond_simps after_query_simps)
  qed
qed

lemma get_product_issued:
  "issued (get_product pp req w) = issued w \<or> issued (get_product pp req w) = issued w @ [get_query req]"
proof (cases pp)
  case (Rejected e)
  then show ?thesis by (simp add: get_product_rejected respond_simps)
next
  case (Fulfilled h)
  show ?thesis
  proof (cases h)
    case None
    with Fulfilled show ?thesis by (simp add: get_product_undefined respond_simps)
  next
    case (Some pool)
    obtain r s' where q: "pool (get_query req) (store w) = (r, s')"
      by (cases "pool (get_query req) (store w)")
    with Fulfilled Some show ?thesis
      by (cases r) (simp_all add: get_product_error get_product_result respond_simps after_query_simps)
  qed
qed

lemma delete_product_issued:
  "issued (delete_product pp req w) = issued w
   \<or> issued (delete_product pp req w) = issued w @ [delete_query req]"
proof (cases pp)
  case (Rejected e)
  then show ?thesis by (simp add: delete_product_rejected respond_simps)
next
  case (Fulfilled h)
  show ?thesis
  proof (cases h)
    case None
    with Fulfilled show ?thesis by (simp add: delete_product_undefined respond_simps)
  next
    case (Some pool)
    obtain r s' where q: "pool (delete_query req) (store w) = (r, s')"
      by (cases "pool (delete_query req) (store w)")
    with Fulfilled Some show ?thesis
      by (cases r) (simp_all add: delete_product_error delete_product_result respond_simps after_query_simps)
  qed
qed

lemma post_product_issued:
  "issued (post_product pp req w) = issued w
   \<or> issued (post_product pp req w) = issued w @ [insert_query req]"
proof (cases "required_present req")
  case False
  then show ?thesis
    by (cases "nullish (body req)")
       (simp_all add: post_product_no_body post_product_invalid respond_simps)
next
  case True
  show ?thesis
  proof (cases pp)
    case (Rejected e)
    with True show ?thesis by (simp add: post_product_rejected respond_simps)
  next
    case (Fulfilled h)
    show ?thesis
    proof (cases h)
      case None
      with True Fulfilled show ?thesis by (simp add: post_product_undefined respond_simps)
    next
      case (Some pool)
      obtain r s' where q: "pool (insert_query req) (store w) = (r, s')"
        by (cases "pool (insert_query req) (store w)")
      with True Fulfilled Some show ?thesis
        by (cases r)
           (simp_all add: post_product_error post_product_result respond_simps after_query_simps
              split: sum.splits)
    qed
  qed
qed

lemma put_product_issued:
  "issued (put_product pp req w) = issued w
   \<or> issued (put_product pp req w) = issued w @ [update_query req]"
proof (cases "required_present req")
  case False
  then show ?thesis
    by (cases "nullish (body req)")
       (simp_all add: put_product_no_body put_product_invalid respond_simps)
next
  case True
  show ?thesis
  proof (cases pp)
    case (Rejected e)
    with True show ?thesis by (simp add: put_product_rejected respond_simps)
  next
    case (Fulfilled h)
    show ?thesis
    proof (cases h)
      case None
      with True Fulfilled show ?thesis by (simp add: put_product_undefined respond_simps)
    next
      case (Some pool)
      obtain r s' where q: "pool (update_query req) (store w) = (r, s')"
        by (cases "pool (update_query req) (store w)")
      with True Fulfilled Some show ?thesis
        by (cases r)
           (simp_all add: put_product_error put_product_result respond_simps after_query_simps)
    qed
  qed
qed

subsection \<open>A body without a property\<close>

lemma field_without: "field (without p b) p = JUndefined"
proof (cases b)
  case (JObj kvs)
  have "map_of (filter (\<lambda>kv. fst kv \<noteq> p) kvs) p = None"
    by (induction kvs) auto
  with JObj show ?thesis by simp
qed simp_all

section \<open>The Products table at work\<close>

subsection \<open>The five statements, parsed\<close>

lemma parse_list_text:
  "parse_sql SQL_LIST =
     Some [Select (Items [(ECol ''id'', None), (ECol ''name'', None), (ECol ''price'', None),
                          (ECol ''qty'', None), (ECol ''description'', None)])
             (Some (''Products'', None, Some (''id'', Asc)))]"
  by code_simp

lemma parse_get_text:
  "parse_sql SQL_GET = Some [Select Star (Some (''Products'', Some (''id'', EParam ''id''), None))]"
  by code_simp

lemma parse_insert_text:
  "parse_sql SQL_INSERT =
     Some [Insert ''Products'' [''name'', ''price'', ''description'', ''qty'']
             [EParam ''name'', EParam ''price'', EParam ''description'', EParam ''qty''],
           Select (Items [(EScopeIdentity, Some ''id'')]) None]"
  by code_simp

lemma parse_update_text:
  "parse_sql SQL_UPDATE =
     Some [Update ''Products''
             [(''name'', EParam ''name''), (''price'', EParam ''price''),
              (''description'', EParam ''description''), (''qty'', EParam ''qty'')]
             (Some (''id'', EParam ''id''))]"
  by code_simp

lemma parse_delete_text:
  "parse_sql SQL_DELETE = Some [Delete ''Products'' (Some (''id'', EParam ''id''))]"
  by code_simp

subsection \<open>The store's answers\<close>

lemma column_simps:
  "column ''id'' r = VInt (prod_id r)"
  "column ''name'' r = VText (prod_name r)"
  "column ''price'' r = VDec (prod_price r)"
  "column ''qty'' r = VInt (prod_qty r)"
  "column ''description'' r = VText (prod_description r)"
  by code_simp+

lemma upper_names:
  "upper ''id'' = ''ID''" "upper ''name'' = ''NAME''" "upper ''price'' = ''PRICE''"
  "upper ''qty'' = ''QTY''" "upper ''description'' = ''DESCRIPTION''"
  by code_simp+

lemma toward_zero_of_int: "toward_zero (of_int k) = k"
  by (simp add: toward_zero_def)

lemma truthy_not_nullish: "truthy v \<Longrightarrow> \<not> nullish v"
  by (cases v) simp_all

lemma js_or_not_nullish: "\<not> nullish (js_or v (JStr s))"
  by (cases v) (simp_all add: js_or_def)

lemma insort_by_id:
  "insort_by (\<lambda>a b. sql_le (column ''id'' a) (column ''id'' b)) x ys = insort_key prod_id x ys"
  by (induction ys) (simp_all add: column_simps)

lemma sort_by_id:
  "sort_by (\<lambda>a b. sql_le (column ''id'' a) (column ''id'' b)) xs = sort_key prod_id xs"
  by (induction xs) (simp_all add: sort_by_def insort_by_id)

lemma project_columns:
  "project ps li (Items [(ECol ''id'', None), (ECol ''name'', None), (ECol ''price'', None),
                         (ECol ''qty'', None), (ECol ''description'', None)]) (Some r) = row_json r"
  by code_simp

lemma project_star: "project ps li Star (Some r) = row_json r"
  by (simp add: project_def)

lemma check_list_stmt:
  "check_stmt [] (Select (Items [(ECol ''id'', None), (ECol ''name'', None), (ECol ''price'', None),
                                (ECol ''qty'', None), (ECol ''description'', None)])
                   (Some (''Products'', None, Some (''id'', Asc)))) = None"
  by code_simp

lemma first_error_one: "first_error [e] = e"
  by (cases e) (simp_all add: first_error_def)

lemma products_db_list:
  "products_db d list_query t =
     (Inr \<lparr>recordset = map row_json (select_all t), rowsAffected = [length (rows t)]\<rparr>, t)"
  by (simp add: products_db_def list_query_def parse_list_text check_list_stmt first_error_one
        run_stmt_def ordered_def matches_def sort_by_id project_columns select_all_def)

lemma bind_id:
  "bind d [(''id'', sql_Int, JStr s)] =
     (case to_int d (JStr s) of
        Some i \<Rightarrow> Inr [(''ID'', VInt i)]
      | None \<Rightarrow> Inl (refusal d ''id'' sql_Int (JStr s)))"
  by (simp add: coerce_def upper_names split: option.splits)

lemma param_id: "param [(''ID'', VInt i)] ''id'' = Some (VInt i)"
  by (simp add: param_def upper_names)

lemma check_where_id: "check_where [(''ID'', VInt i)] (Some (''id'', EParam ''id'')) = None"
  by code_simp

lemma check_get_stmt:
  "check_stmt [(''ID'', VInt i)] (Select Star (Some (''Products'', Some (''id'', EParam ''id''), None)))
     = None"
  by code_simp

lemma check_delete_stmt:
  "check_stmt [(''ID'', VInt i)] (Delete ''Products'' (Some (''id'', EParam ''id''))) = None"
  by code_simp

lemma matches_id:
  "matches [(''ID'', VInt i)] li (Some (''id'', EParam ''id'')) = (\<lambda>r. prod_id r = i)"
  by (rule ext) (simp add: matches_def column_simps param_id sql_eq_def)

lemma products_db_get:
  "products_db d (get_query req) t =
     (case to_int d (JStr (params_id req)) of
        Some i \<Rightarrow> (Inr \<lparr>recordset = map row_json (select_by_id i t),
                         rowsAffected = [length (select_by_id i t)]\<rparr>, t)
      | None \<Rightarrow> (Inl (refusal d ''id'' sql_Int (JStr (params_id req))), t))"
  by (simp add: products_db_def get_query_def bind_id parse_get_text check_get_stmt first_error_one
        run_stmt_def ordered_def matches_id project_star select_by_id_def Let_def
        del: bind.simps split: option.splits)

lemma products_db_delete:
  "products_db d (delete_query req) t =
     (case to_int d (JStr (params_id req)) of
        Some i \<Rightarrow> (Inr \<lparr>recordset = [], rowsAffected = [length (select_by_id i t)]\<rparr>, delete_row i t)
      | None \<Rightarrow> (Inl (refusal d ''id'' sql_Int (JStr (params_id req))), t))"
  by (simp add: products_db_def delete_query_def bind_id parse_delete_text check_delete_stmt
        first_error_one run_stmt_def matches_id select_by_id_def delete_row_def Let_def
        del: bind.simps split: option.splits)

lemma bind_insert:
  assumes "required_present req"
    and "to_nvarchar d (field (body req) ''name'') = Some n"
    and "to_decimal d (field (body req) ''price'') = Some p"
    and "to_nvarchar d (js_or (field (body req) ''description'') (JStr '''')) = Some ds"
    and "to_int d (field (body req) ''qty'') = Some k"
  shows "bind d (bound (insert_query req)) =
           Inr [(''NAME'', VText n), (''PRICE'', VDec p), (''QTY'', VInt k), (''DESCRIPTION'', VText ds)]"
  using assms
  by (simp add: insert_query_def coerce_def upper_names required_present_def
        truthy_not_nullish js_or_not_nullish)

lemma bind_update:
  assumes "required_present req"
    and "to_int d (JStr (params_id req)) = Some i"
    and "to_nvarchar d (field (body req) ''name'') = Some n"
    and "to_decimal d (field (body req) ''price'') = Some p"
    and "to_nvarchar d (js_or (field (body req) ''description'') (JStr '''')) = Some ds"
    and "to_int d (field (body req) ''qty'') = Some k"
  shows "bind d (bound (update_query req)) =
           Inr [(''ID'', VInt i), (''NAME'', VText n), (''PRICE'', VDec p), (''QTY'', VInt k),
                (''DESCRIPTION'', VText ds)]"
  using assms
  by (simp add: update_query_def coerce_def upper_names required_present_def
        truthy_not_nullish js_or_not_nullish)

lemma check_insert_stmts:
  "check_stmt [(''NAME'', VText n), (''PRICE'', VDec p), (''QTY'', VInt k), (''DESCRIPTION'', VText ds)]
     (Insert ''Products'' [''name'', ''price'', ''description'', ''qty'']
        [EParam ''name'', EParam ''price'', EParam ''description'', EParam ''qty'']) = None"
  "check_stmt ps (Select (Items [(EScopeIdentity, Some ''id'')]) None) = None"
  by code_simp+

lemma run_insert_stmt:
  "run_stmt [(''NAME'', VText n), (''PRICE'', VDec p), (''QTY'', VInt k), (''DESCRIPTION'', VText ds)]
     li (Insert ''Products'' [''name'', ''price'', ''description'', ''qty'']
           [EParam ''name'', EParam ''price'', EParam ''description'', EParam ''qty'']) t
   = Inr (None, 1, insert_row n p ds k t, Some (identity t))"
  by (simp add: run_stmt_def new_row_def upper_names param_def as_text_def as_decimal_def
        as_int_def toward_zero_of_int insert_row_def)

lemma run_identity_stmt:
  "run_stmt ps (Some i) (Select (Items [(EScopeIdentity, Some ''id'')]) None) t
   = Inr (Some [JObj [(''id'', JNum (of_int i))]], 1, t, Some i)"
  by (simp add: run_stmt_def project_def item_name_def json_of_def)

lemma products_db_insert:
  assumes "required_present req"
    and "to_nvarchar d (field (body req) ''name'') = Some n"
    and "to_decimal d (field (body req) ''price'') = Some p"
    and "to_nvarchar d (js_or (field (body req) ''description'') (JStr '''')) = Some ds"
    and "to_int d (field (body req) ''qty'') = Some k"
  shows "products_db d (insert_query req) t =
     (Inr \<lparr>recordset = [JObj [(''id'', JNum (of_int (identity t)))]], rowsAffected = [1, 1]\<rparr>,
      insert_row n p ds k t)"
proof -
  have "sql_text (insert_query req) = SQL_INSERT"
    by (simp add: insert_query_def)
  then show ?thesis
    by (simp add: products_db_def bind_insert [OF assms] parse_insert_text check_insert_stmts
          first_error_def run_insert_stmt run_identity_stmt)
qed

lemma check_update_stmt:
  "check_stmt [(''ID'', VInt i), (''NAME'', VText n), (''PRICE'', VDec p), (''QTY'', VInt k),
               (''DESCRIPTION'', VText ds)]
     (Update ''Products''
        [(''name'', EParam ''name''), (''price'', EParam ''price''),
         (''description'', EParam ''description''), (''qty'', EParam ''qty'')]
        (Some (''id'', EParam ''id''))) = None"
  by code_simp

lemma matches_update:
  "matches [(''ID'', VInt i), (''NAME'', VText n), (''PRICE'', VDec p), (''QTY'', VInt k),
            (''DESCRIPTION'', VText ds)] li (Some (''id'', EParam ''id'')) = (\<lambda>r. prod_id r = i)"
  by (rule ext) (simp add: matches_def column_simps param_def upper_names sql_eq_def)

lemma assign_update:
  "assign_all [(''ID'', VInt i), (''NAME'', VText n), (''PRICE'', VDec p), (''QTY'', VInt k),
               (''DESCRIPTION'', VText ds)] li old
     [(''name'', EParam ''name''), (''price'', EParam ''price''),
      (''description'', EParam ''description''), (''qty'', EParam ''qty'')] r
   = Inr (r\<lparr>prod_name := n, prod_price := p, prod_description := ds, prod_qty := k\<rparr>)"
  by (simp add: set_column_def upper_names param_def as_text_def as_decimal_def as_int_def
        toward_zero_of_int)

lemma update_rows_update:
  "update_rows [(''ID'', VInt i), (''NAME'', VText n), (''PRICE'', VDec p), (''QTY'', VInt k),
                (''DESCRIPTION'', VText ds)] li
     [(''name'', EParam ''name''), (''price'', EParam ''price''),
      (''description'', EParam ''description''), (''qty'', EParam ''qty'')]
     (Some (''id'', EParam ''id'')) rs
   = Inr (map (\<lambda>r. if prod_id r = i
                     then r\<lparr>prod_name := n, prod_price := p, prod_description := ds, prod_qty := k\<rparr>
                     else r) rs)"
  by (induction rs) (simp_all add: matches_update assign_update del: assign_all.simps)

lemma products_db_update:
  assumes "required_present req"
    and "to_int d (JStr (params_id req)) = Some i"
    and "to_nvarchar d (field (body req) ''name'') = Some n"
    and "to_decimal d (field (body req) ''price'') = Some p"
    and "to_nvarchar d (js_or (field (body req) ''description'') (JStr '''')) = Some ds"
    and "to_int d (field (body req) ''qty'') = Some k"
  shows "products_db d (update_query req) t =
     (Inr \<lparr>recordset = [], rowsAffected = [length (select_by_id i t)]\<rparr>, update_row i n p ds k t)"
proof -
  have "sql_text (update_query req) = SQL_UPDATE"
    by (simp add: update_query_def)
  then show ?thesis
    by (simp add: products_db_def bind_update [OF assms] parse_update_text check_update_stmt
          first_error_one run_stmt_def update_rows_update matches_update select_by_id_def
          update_row_def)
qed

subsection \<open>The ids of the table\<close>

lemma update_row_absent:
  "select_by_id i t = [] \<Longrightarrow> update_row i n p ds k t = t"
proof -
  assume "select_by_id i t = []"
  then have "\<forall>r \<in> set (rows t). prod_id r \<noteq> i"
    by (auto simp: select_by_id_def filter_empty_conv)
  then have "map (\<lambda>r. if prod_id r = i
                          then r\<lparr>prod_name := n, prod_price := p, prod_description := ds, prod_qty := k\<rparr>
                          else r) (rows t) = rows t"
    by (induction "rows t") (auto simp: map_idI)
  then show ?thesis by (simp add: update_row_def)
qed

lemma select_inserted:
  assumes "assigned t"
  shows "select_by_id (identity t) (insert_row n p ds k t) =
           [\<lparr>prod_id = identity t, prod_name = n, prod_price = p, prod_qty = k, prod_description = ds\<rparr>]"
proof -
  from assms have "\<forall>r \<in> set (rows t). prod_id r \<noteq> identity t"
    by (auto simp: assigned_def list_all_iff)
  then have "filter (\<lambda>r. prod_id r = identity t) (rows t) = []"
    by (simp add: filter_empty_conv)
  then show ?thesis by (simp add: select_by_id_def insert_row_def)
qed

lemma assigned_insert: "assigned t \<Longrightarrow> assigned (insert_row n p ds k t)"
  by (auto simp: assigned_def insert_row_def list_all_iff)

lemma assigned_update: "assigned t \<Longrightarrow> assigned (update_row i n p ds k t)"
  by (auto simp: assigned_def update_row_def list_all_iff)

lemma assigned_delete: "assigned t \<Longrightarrow> assigned (delete_row i t)"
  by (auto simp: assigned_def delete_row_def list_all_iff)

lemma assigned_empty: "assigned \<lparr>rows = [], identity = 1\<rparr>"
  by (simp add: assigned_def)

lemma set_column_id: "set_column c v r = Inr r' \<Longrightarrow> prod_id r' = prod_id r"
  by (auto simp: set_column_def Let_def split: if_splits option.splits)

lemma assign_all_id: "assign_all ps li old sets r = Inr r' \<Longrightarrow> prod_id r' = prod_id r"
proof (induction sets arbitrary: r)
  case Nil
  then show ?case by simp
next
  case (Cons a sets)
  obtain c e where a: "a = (c, e)" by (cases a)
  from Cons.prems a obtain r1 where
    s: "set_column c (value_of ps li (Some old) e) r = Inr r1" and
    t: "assign_all ps li old sets r1 = Inr r'"
    by (auto split: sum.splits)
  from Cons.IH [OF t] set_column_id [OF s] show ?case by simp
qed

lemma update_rows_ids:
  "update_rows ps li sets w rs = Inr rs' \<Longrightarrow> map prod_id rs' = map prod_id rs"
proof (induction rs arbitrary: rs')
  case Nil
  then show ?case by simp
next
  case (Cons r rs)
  from Cons.prems obtain r1 rs1 where
    h: "(if matches ps li w r then assign_all ps li r sets r else Inr r) = Inr r1" and
    t: "update_rows ps li sets w rs = Inr rs1" and
    e: "rs' = r1 # rs1"
    by (auto split: sum.splits)
  from h have "prod_id r1 = prod_id r"
    by (auto dest: assign_all_id split: if_splits)
  with Cons.IH [OF t] e show ?case by simp
qed

lemma assigned_ids: "assigned t \<longleftrightarrow> (\<forall>i \<in> set (map prod_id (rows t)). i < identity t)"
  by (auto simp: assigned_def list_all_iff)

lemma run_stmt_assigned:
  assumes "assigned t" and "run_stmt ps li s t = Inr (x, n, t', li')"
  shows "assigned t'"
proof (cases s)
  case (Select sel src)
  with assms show ?thesis
    by (auto simp: run_stmt_def Let_def split: option.splits)
next
  case (Insert n cs es)
  with assms obtain r where
    r: "new_row (identity t) (zip (map upper cs) (map (value_of ps li None) es)) = Inr r" and
    t': "t' = t\<lparr>rows := rows t @ [r], identity := identity t + 1\<rparr>"
    by (auto simp: run_stmt_def split: sum.splits)
  from r have "prod_id r = identity t"
    by (auto simp: new_row_def split: if_splits option.splits)
  with assms(1) t' show ?thesis
    by (auto simp: assigned_def list_all_iff)
next
  case (Update n sets w)
  with assms obtain rs where
    rs: "update_rows ps li sets w (rows t) = Inr rs" and t': "t' = t\<lparr>rows := rs\<rparr>"
    by (auto simp: run_stmt_def split: sum.splits)
  from update_rows_ids [OF rs] assms(1) t' show ?thesis
    by (simp add: assigned_ids)
next
  case (Delete n w)
  with assms show ?thesis
    by (auto simp: run_stmt_def assigned_def list_all_iff)
qed

lemma run_batch_assigned:
  "assigned t \<Longrightarrow> assigned (snd (run_batch ps batch li first counts t))"
proof (induction batch arbitrary: li first counts t)
  case Nil
  then show ?case by simp
next
  case (Cons s batch)
  show ?case
  proof (cases "run_stmt ps li s t")
    case (Inl err)
    with Cons.prems show ?thesis by simp
  next
    case (Inr res)
    obtain x n t' li' where res: "res = (x, n, t', li')"
      by (cases res) auto
    from run_stmt_assigned [OF Cons.prems] Inr res have "assigned t'"
      by simp
    from Cons.IH [OF this] Inr res show ?thesis by simp
  qed
qed

lemma products_db_assigned:
  assumes "assigned t"
  shows "assigned (snd (products_db d q t))"
  using assms
  by (auto simp: products_db_def run_batch_assigned split: sum.splits option.splits)

subsection \<open>The driver and the failing pool\<close>

lemma failing_pool_simp: "failing_pool msg q s = (Inl msg, s)"
  by (simp add: failing_pool_def)

lemma tedious_simps:
  "to_int tedious = tedious_int" "to_decimal tedious = tedious_decimal"
  "to_nvarchar tedious = tedious_nvarchar" "refusal tedious = tedious_refusal"
  by (simp_all add: tedious_def)

lemma tedious_nvarchar_str: "tedious_nvarchar (JStr s) = Some s"
  by (simp add: tedious_nvarchar_def)

lemmas number_defs = tedious_int_def tedious_decimal_def string_to_number_def trim_def starts_with_def
  decimal_literal_def exponent_def scale10_def radix_literal_def radix_digit_def
  is_space_def is_digit_def is_letter_def digits_value_def digit_of_def
  int_min_def int_max_def toward_zero_def hundredths_def Let_def

lemma tedious_int_whole:
  "- 2147483648 \<le> k \<Longrightarrow> k \<le> 2147483647 \<Longrightarrow> tedious_int (JNum (of_int k)) = Some k"
  by (simp add: tedious_int_def int_min_def int_max_def toward_zero_of_int)

lemma hundredths_exact: "hundredths (of_int n / 100) = \<bar>n\<bar>"
proof -
  have "\<bar>(of_int n :: rat) / 100\<bar> * 100 + 1 / 2 = of_int \<bar>n\<bar> + 1 / 2"
    by simp
  then show ?thesis
    unfolding hundredths_def by (simp add: floor_eq_iff del: of_int_abs)
qed

lemma tedious_decimal_hundredths:
  assumes "\<bar>n\<bar> < 10 ^ 10"
  shows "tedious_decimal (JNum (of_int n / 100)) = Some (of_int n / 100)"
  using assms by (simp add: tedious_decimal_def hundredths_exact)

lemma tedious_decimal_whole:
  assumes "\<bar>k\<bar> < 10 ^ 8"
  shows "tedious_decimal (JNum (of_int k)) = Some (of_int k)"
proof -
  from assms have "\<bar>k * 100\<bar> < 10 ^ 10"
    by (simp add: abs_mult)
  from tedious_decimal_hundredths [OF this] show ?thesis
    by simp
qed

lemma tedious_decimal_rounds: "tedious_decimal (JNum (75000001 / 1000)) = Some 75000"
  by (simp add: tedious_decimal_def hundredths_def floor_eq_iff)

lemma tedious_examples:
  "tedious_decimal (JNum 75000) = Some 75000"
  "tedious_decimal (JNum 12) = Some 12"
  "tedious_int (JNum 5) = Some 5"
  "tedious_int (JNum 3) = Some 3"
  by (simp_all add: tedious_decimal_def hundredths_def floor_eq_iff tedious_int_def int_min_def
        int_max_def toward_zero_def)

lemma tedious_int_path:
  "tedious_int (JStr ''1'') = Some 1"
  "tedious_int (JStr ''2'') = Some 2"
  "tedious_int (JStr ''7'') = Some 7"
  "tedious_int (JStr ''999'') = Some 999"
  "tedious_int (JStr ''abc'') = None"
  by (simp_all add: number_defs)

lemma tedious_refusal_path:
  "tedious_refusal ''id'' sql_Int (JStr ''abc'') = validation_failed ''id'' ''Invalid number.''"
  by (simp add: tedious_refusal_def number_defs)

section \<open>The connection promise\<close>

lemma poolPromise_rejected:
  "connect cfg = Rejected err \<Longrightarrow>
   poolPromise connect cfg c = (Fulfilled None, c @ [[''Database connection failed: '', err]])"
  by (simp add: poolPromise_def promise_then_def promise_catch_def)

lemma poolPromise_fulfilled:
  "connect cfg = Fulfilled pool \<Longrightarrow>
   poolPromise connect cfg c = (Fulfilled (Some pool), c @ [[''Database connected successfully'']])"
  by (simp add: poolPromise_def promise_then_def promise_catch_def)

section \<open>Create, then read\<close>

text \<open>
  C1. A POST whose name, price and qty are truthy and whose values the store takes for
  the declared types of the statement (NVarChar, Decimal(10,2), Int, and NVarChar for the
  description or, when it is left out or falsy, for the empty string) is answered 201 with
  the message \<open>Product created successfully\<close> and the id that the store generated; a GET
  by that id, straight after, is answered 200 with the row of that id, whose name, price,
  qty and description are the payload's values as the store coerced them to those types.
  The record matches the payload when the coercion leaves its values as they are, and
  only then. The store is the Products table, in any state whose ids were all assigned by
  it; both statements are run from their text.
\<close>

theorem post_then_get:
  assumes wf: "assigned (store w)"
    and present: "truthy (field (body req) ''name'')" "truthy (field (body req) ''price'')"
        "truthy (field (body req) ''qty'')"
    and stored: "to_nvarchar d (field (body req) ''name'') = Some n"
        "to_decimal d (field (body req) ''price'') = Some p"
        "to_int d (field (body req) ''qty'') = Some k"
        "to_nvarchar d (js_or (field (body req) ''description'') (JStr '''')) = Some ds"
    and path: "to_int d (JStr (params_id req')) = Some (identity (store w))"
  shows "post_product (Fulfilled (Some (products_db d))) req w =
           w\<lparr>store := insert_row n p ds k (store w),
             issued := issued w @ [insert_query req],
             sent := sent w @
               [\<lparr>status = 201,
                 content = Json (JObj [(''message'', JStr ''Product created successfully''),
                                       (''id'', JNum (of_int (identity (store w))))])\<rparr>]\<rparr>
       \<and> get_product (Fulfilled (Some (products_db d))) req'
             (post_product (Fulfilled (Some (products_db d))) req w) =
           w\<lparr>store := insert_row n p ds k (store w),
             issued := issued w @ [insert_query req, get_query req'],
             sent := sent w @
               [\<lparr>status = 201,
                 content = Json (JObj [(''message'', JStr ''Product created successfully''),
                                       (''id'', JNum (of_int (identity (store w))))])\<rparr>,
                \<lparr>status = 200,
                 content = Json (JObj [(''id'', JNum (of_int (identity (store w)))),
                                       (''name'', JStr n),
                                       (''price'', JNum p),
                                       (''qty'', JNum (of_int k)),
                                       (''description'', JStr ds)])\<rparr>]\<rparr>"
proof -
  let ?pp = "Fulfilled (Some (products_db d))"
  let ?created = "w\<lparr>store := insert_row n p ds k (store w),
             issued := issued w @ [insert_query req],
             sent := sent w @
               [\<lparr>status = 201,
                 content = Json (JObj [(''message'', JStr ''Product created successfully''),
                                       (''id'', JNum (of_int (identity (store w))))])\<rparr>]\<rparr>"
  let ?row = "\<lparr>prod_id = identity (store w), prod_name = n, prod_price = p,
               prod_qty = k, prod_description = ds\<rparr>"
  have present: "required_present req"
    using present by (simp add: required_present_def)
  have ins: "products_db d (insert_query req) (store w) =
     (Inr \<lparr>recordset = [JObj [(''id'', JNum (of_int (identity (store w))))]], rowsAffected = [1, 1]\<rparr>,
      insert_row n p ds k (store w))"
    using present stored(1) stored(2) stored(4) stored(3) by (rule products_db_insert)
  have post: "post_product ?pp req w = ?created"
    using post_product_result [where pool = "products_db d" and w = w, OF present ins]
    by (simp add: first_elem_def get_prop_def respond_def after_query_def)
  have sel: "products_db d (get_query req') (store ?created) =
     (Inr \<lparr>recordset = [row_json ?row], rowsAffected = [1]\<rparr>, store ?created)"
    by (simp add: products_db_get path select_inserted [OF wf])
  have get: "get_product ?pp req' ?created =
      respond 200 (Json (row_json ?row)) (after_query (get_query req') (store ?created) ?created)"
    using get_product_result [where pool = "products_db d" and w = ?created, OF sel]
    by (simp add: first_elem_def)
  show ?thesis
    unfolding post get
    by (simp add: respond_def after_query_def row_json_def)
qed

text \<open>
  The scenario of the specification, with the driver's coercion: on the empty table, a
  POST of \<open>{name:"Laptop", price:75000, qty:5}\<close> creates id 1, and
  \<open>GET /api/products/1\<close> returns the row with the description \<open>""\<close>.
\<close>

theorem post_then_get_witness:
  "assigned \<lparr>rows = [], identity = 1\<rparr>
   \<and> post_product (Fulfilled (Some (products_db tedious)))
      \<lparr>params_id = '''',
        body = JObj [(''name'', JStr ''Laptop''), (''price'', JNum 75000), (''qty'', JNum 5)]\<rparr>
      \<lparr>store = \<lparr>rows = [], identity = 1\<rparr>, issued = [], sent = []\<rparr>
    = \<lparr>store = \<lparr>rows = [\<lparr>prod_id = 1, prod_name = ''Laptop'', prod_price = 75000, prod_qty = 5,
                             prod_description = ''''\<rparr>],
                   identity = 2\<rparr>,
       issued = [insert_query \<lparr>params_id = '''',
          body = JObj [(''name'', JStr ''Laptop''), (''price'', JNum 75000), (''qty'', JNum 5)]\<rparr>],
       sent = [\<lparr>status = 201,
                content = Json (JObj [(''message'', JStr ''Product created successfully''),
                                      (''id'', JNum 1)])\<rparr>]\<rparr>
   \<and> sent (get_product (Fulfilled (Some (products_db tedious)))
        \<lparr>params_id = ''1'', body = JUndefined\<rparr>
        (post_product (Fulfilled (Some (products_db tedious)))
          \<lparr>params_id = '''',
            body = JObj [(''name'', JStr ''Laptop''), (''price'', JNum 75000), (''qty'', JNum 5)]\<rparr>
          \<lparr>store = \<lparr>rows = [], identity = 1\<rparr>, issued = [], sent = []\<rparr>))
    = [\<lparr>status = 201,
        content = Json (JObj [(''message'', JStr ''Product created successfully''),
                              (''id'', JNum 1)])\<rparr>,
       \<lparr>status = 200,
        content = Json (JObj [(''id'', JNum 1), (''name'', JStr ''Laptop''), (''price'', JNum 75000),
                              (''qty'', JNum 5), (''description'', JStr '''')])\<rparr>]"
  using post_then_get [of "\<lparr>store = \<lparr>rows = [], identity = 1\<rparr>, issued = [], sent = []\<rparr>"
      "\<lparr>params_id = '''',
        body = JObj [(''name'', JStr ''Laptop''), (''price'', JNum 75000), (''qty'', JNum 5)]\<rparr>"
      tedious "''Laptop''" 75000 5 "''''" "\<lparr>params_id = ''1'', body = JUndefined\<rparr>"]
  by (clarsimp simp: assigned_def tedious_simps tedious_nvarchar_str tedious_examples
        tedious_int_path js_or_def insert_row_def)

text \<open>
  The claim as the specification words it (the record read back matches the payload, for
  every payload with a name, a price and a qty) fails at a price that the declared type
  \<open>Decimal(10,2)\<close> does not hold: a POST of \<open>{name:"Laptop", price:75000.001, qty:5}\<close>
  is answered 201, and the GET by the returned id gives the price 75000.
\<close>

theorem post_then_get_counterexample:
  "sent (get_product (Fulfilled (Some (products_db tedious)))
        \<lparr>params_id = ''1'', body = JUndefined\<rparr>
        (post_product (Fulfilled (Some (products_db tedious)))
          \<lparr>params_id = '''',
            body = JObj [(''name'', JStr ''Laptop''), (''price'', JNum (75000001 / 1000)),
                         (''qty'', JNum 5)]\<rparr>
          \<lparr>store = \<lparr>rows = [], identity = 1\<rparr>, issued = [], sent = []\<rparr>))
    = [\<lparr>status = 201,
        content = Json (JObj [(''message'', JStr ''Product created successfully''),
                              (''id'', JNum 1)])\<rparr>,
       \<lparr>status = 200,
        content = Json (JObj [(''id'', JNum 1), (''name'', JStr ''Laptop''), (''price'', JNum 75000),
                              (''qty'', JNum 5), (''description'', JStr '''')])\<rparr>]
   \<and> JNum 75000 \<noteq> JNum (75000001 / 1000)"
proof -
  let ?db = "products_db tedious"
  let ?req = "\<lparr>params_id = '''',
            body = JObj [(''name'', JStr ''Laptop''), (''price'', JNum (75000001 / 1000)),
                         (''qty'', JNum 5)]\<rparr>"
  let ?get = "\<lparr>params_id = ''1'', body = JUndefined\<rparr>"
  let ?none = "\<lparr>store = \<lparr>rows = [], identity = 1\<rparr>, issued = [], sent = []\<rparr>"
  let ?row = "\<lparr>prod_id = 1, prod_name = ''Laptop'', prod_price = 75000, prod_qty = 5,
               prod_description = ''''\<rparr>"
  let ?created = "\<lparr>store = \<lparr>rows = [?row], identity = 2\<rparr>, issued = [insert_query ?req],
       sent = [\<lparr>status = 201,
                content = Json (JObj [(''message'', JStr ''Product created successfully''),
                                      (''id'', JNum 1)])\<rparr>]\<rparr>"
  have present: "required_present ?req"
    by (simp add: required_present_def)
  have ins: "?db (insert_query ?req) (store ?none) =
     (Inr \<lparr>recordset = [JObj [(''id'', JNum 1)]], rowsAffected = [1, 1]\<rparr>, \<lparr>rows = [?row], identity = 2\<rparr>)"
    using products_db_insert [where d = tedious and req = ?req and n = "''Laptop''" and p = 75000
        and ds = "''''" and k = 5 and t = "store ?none", OF present]
    by (simp add: tedious_simps tedious_nvarchar_str tedious_examples tedious_decimal_rounds
          js_or_def insert_row_def)
  have post: "post_product (Fulfilled (Some ?db)) ?req ?none = ?created"
    using post_product_result [where pool = ?db and w = ?none, OF present ins]
    by (simp add: first_elem_def get_prop_def respond_def after_query_def)
  have sel: "?db (get_query ?get) (store ?created) =
     (Inr \<lparr>recordset = [row_json ?row], rowsAffected = [1]\<rparr>, store ?created)"
    by (simp add: products_db_get tedious_simps tedious_int_path select_by_id_def)
  have get: "get_product (Fulfilled (Some ?db)) ?get ?created =
      respond 200 (Json (row_json ?row)) (after_query (get_query ?get) (store ?created) ?created)"
    using get_product_result [where pool = ?db and w = ?created, OF sel]
    by (simp add: first_elem_def)
  show ?thesis
    unfolding post get
    by (simp add: respond_def after_query_def row_json_def)
qed

section \<open>Bound parameters\<close>

text \<open>
  C2. Whatever the request, the connection and the world, each of the five handlers
  submits nothing or exactly one statement; the text of that statement is the handler's
  own constant, and what the request supplies (the path id, the fields of the body) stands
  in the list of bound inputs only.
\<close>

theorem fixed_sql_text:
  "(issued (get_products pp req w) = issued w
      \<or> issued (get_products pp req w) = issued w @ [\<lparr>sql_text = SQL_LIST, bound = []\<rparr>])
   \<and> (issued (get_product pp req w) = issued w
      \<or> issued (get_product pp req w) =
          issued w @ [\<lparr>sql_text = SQL_GET, bound = [(''id'', sql_Int, JStr (params_id req))]\<rparr>])
   \<and> (issued (post_product pp req w) = issued w
      \<or> issued (post_product pp req w) =
          issued w @ [\<lparr>sql_text = SQL_INSERT,
                        bound = [(''name'', sql_NVarChar, field (body req) ''name''),
                                 (''price'', sql_Decimal 10 2, field (body req) ''price''),
                                 (''qty'', sql_Int, field (body req) ''qty''),
                                 (''description'', sql_NVarChar,
                                    js_or (field (body req) ''description'') (JStr ''''))]\<rparr>])
   \<and> (issued (put_product pp req w) = issued w
      \<or> issued (put_product pp req w) =
          issued w @ [\<lparr>sql_text = SQL_UPDATE,
                        bound = [(''id'', sql_Int, JStr (params_id req)),
                                 (''name'', sql_NVarChar, field (body req) ''name''),
                                 (''price'', sql_Decimal 10 2, field (body req) ''price''),
                                 (''qty'', sql_Int, field (body req) ''qty''),
                                 (''description'', sql_NVarChar,
                                    js_or (field (body req) ''description'') (JStr ''''))]\<rparr>])
   \<and> (issued (delete_product pp req w) = issued w
      \<or> issued (delete_product pp req w) =
          issued w @ [\<lparr>sql_text = SQL_DELETE, bound = [(''id'', sql_Int, JStr (params_id req))]\<rparr>])"
  using get_products_issued [of pp req w] get_product_issued [of pp req w]
    post_product_issued [of pp req w] put_product_issued [of pp req w]
    delete_product_issued [of pp req w]
  unfolding list_query_def get_query_def insert_query_def update_query_def delete_query_def
  by blast

text \<open>
  Path ids written as SQL reach the store as the value of \<open>@id\<close>, under the constant text;
  a body that fails the test submits nothing.
\<close>

theorem fixed_sql_text_witness:
  "issued (get_product (Fulfilled (Some (failing_pool ''Connection is closed.'')))
      \<lparr>params_id = ''1 OR 1=1'', body = JUndefined\<rparr>
      \<lparr>store = (), issued = [], sent = []\<rparr>)
    = [\<lparr>sql_text = SQL_GET, bound = [(''id'', sql_Int, JStr ''1 OR 1=1'')]\<rparr>]
   \<and> issued (delete_product (Fulfilled (Some (failing_pool ''Connection is closed.'')))
      \<lparr>params_id = ''1; DROP TABLE Products'', body = JUndefined\<rparr>
      \<lparr>store = (), issued = [], sent = []\<rparr>)
    = [\<lparr>sql_text = SQL_DELETE, bound = [(''id'', sql_Int, JStr ''1; DROP TABLE Products'')]\<rparr>]
   \<and> issued (post_product (Fulfilled None)
      \<lparr>params_id = '''', body = JObj [(''name'', JStr ''); DROP TABLE Products;--'')]\<rparr>
      \<lparr>store = (), issued = [], sent = []\<rparr>)
    = []"
proof -
  let ?v = "\<lparr>store = (), issued = [], sent = []\<rparr>"
  let ?pp = "Fulfilled (Some (failing_pool ''Connection is closed.''))
               :: unit pool option promise"
  let ?get = "\<lparr>params_id = ''1 OR 1=1'', body = JUndefined\<rparr>"
  let ?del = "\<lparr>params_id = ''1; DROP TABLE Products'', body = JUndefined\<rparr>"
  let ?post = "\<lparr>params_id = '''', body = JObj [(''name'', JStr ''); DROP TABLE Products;--'')]\<rparr>"
  have a: "issued (get_product ?pp ?get ?v) \<noteq> issued ?v"
    by (simp add: get_product_error [where pool = "failing_pool ''Connection is closed.''"]
          failing_pool_simp respond_simps after_query_simps)
  have b: "issued (delete_product ?pp ?del ?v) \<noteq> issued ?v"
    by (simp add: delete_product_error [where pool = "failing_pool ''Connection is closed.''"]
          failing_pool_simp respond_simps after_query_simps)
  have c: "issued (post_product (Fulfilled None) ?post ?v) \<noteq>
      issued ?v @ [\<lparr>sql_text = SQL_INSERT,
                        bound = [(''name'', sql_NVarChar, field (body ?post) ''name''),
                                 (''price'', sql_Decimal 10 2, field (body ?post) ''price''),
                                 (''qty'', sql_Int, field (body ?post) ''qty''),
                                 (''description'', sql_NVarChar,
                                    js_or (field (body ?post) ''description'') (JStr ''''))]\<rparr>]"
    by (simp add: post_product_invalid required_present_def respond_simps)
  from a b c fixed_sql_text [of ?pp ?get ?v] fixed_sql_text [of ?pp ?del ?v]
    fixed_sql_text [of "Fulfilled None" ?post ?v]
  show ?thesis by simp
qed

section \<open>Validation\<close>




section \<open>Rows affected\<close>

text \<open>
  C4. A PUT (whose body passes the test) and a DELETE submit their one write statement, no
  read before it, and decide from its answer alone: 404 with \<open>Product not found\<close> exactly
  when the first rows-affected count is 0, and otherwise 200 with the handler's success
  text; the store is left as the statement left it. On the Products table, a PUT on an id
  that no row has is answered 404 and the table is unchanged.
\<close>

theorem rows_affected_decide:
  "(required_present req \<and> pool (update_query req) (store w) = (Inr result, s') \<longrightarrow>
      put_product (Fulfilled (Some pool)) req w =
        w\<lparr>store := s', issued := issued w @ [update_query req],
          sent := sent w @
            [if first_is_zero (rowsAffected result)
             then \<lparr>status = 404, content = Text ''Product not found''\<rparr>
             else \<lparr>status = 200, content = Text ''Product updated successfully''\<rparr>]\<rparr>)
   \<and> (pool (delete_query req) (store w) = (Inr result, s') \<longrightarrow>
      delete_product (Fulfilled (Some pool)) req w =
        w\<lparr>store := s', issued := issued w @ [delete_query req],
          sent := sent w @
            [if first_is_zero (rowsAffected result)
             then \<lparr>status = 404, content = Text ''Product not found''\<rparr>
             else \<lparr>status = 200, content = Text ''Product deleted successfully''\<rparr>]\<rparr>)
   \<and> (required_present req \<and> to_int d (JStr (params_id req)) = Some i
        \<and> select_by_id i (store v) = []
        \<and> to_nvarchar d (field (body req) ''name'') = Some n
        \<and> to_decimal d (field (body req) ''price'') = Some p
        \<and> to_int d (field (body req) ''qty'') = Some k
        \<and> to_nvarchar d (js_or (field (body req) ''description'') (JStr '''')) = Some ds \<longrightarrow>
      put_product (Fulfilled (Some (products_db d))) req v =
        v\<lparr>issued := issued v @ [update_query req],
          sent := sent v @ [\<lparr>status = 404, content = Text ''Product not found''\<rparr>]\<rparr>)"
proof (intro conjI impI)
  assume "required_present req \<and> pool (update_query req) (store w) = (Inr result, s')"
  then show "put_product (Fulfilled (Some pool)) req w =
        w\<lparr>store := s', issued := issued w @ [update_query req],
          sent := sent w @
            [if first_is_zero (rowsAffected result)
             then \<lparr>status = 404, content = Text ''Product not found''\<rparr>
             else \<lparr>status = 200, content = Text ''Product updated successfully''\<rparr>]\<rparr>"
    by (simp add: put_product_result respond_def after_query_def)
next
  assume "pool (delete_query req) (store w) = (Inr result, s')"
  then show "delete_product (Fulfilled (Some pool)) req w =
        w\<lparr>store := s', issued := issued w @ [delete_query req],
          sent := sent w @
            [if first_is_zero (rowsAffected result)
             then \<lparr>status = 404, content = Text ''Product not found''\<rparr>
             else \<lparr>status = 200, content = Text ''Product deleted successfully''\<rparr>]\<rparr>"
    by (simp add: delete_product_result respond_def after_query_def)
next
  assume a: "required_present req \<and> to_int d (JStr (params_id req)) = Some i
        \<and> select_by_id i (store v) = []
        \<and> to_nvarchar d (field (body req) ''name'') = Some n
        \<and> to_decimal d (field (body req) ''price'') = Some p
        \<and> to_int d (field (body req) ''qty'') = Some k
        \<and> to_nvarchar d (js_or (field (body req) ''description'') (JStr '''')) = Some ds"
  then have q: "products_db d (update_query req) (store v) =
      (Inr \<lparr>recordset = [], rowsAffected = [length (select_by_id i (store v))]\<rparr>,
       update_row i n p ds k (store v))"
    by (simp add: products_db_update)
  from a have u: "update_row i n p ds k (store v) = store v"
    by (simp add: update_row_absent)
  from a have "required_present req" by simp
  from put_product_result [where pool = "products_db d" and w = v, OF this q] a u
  show "put_product (Fulfilled (Some (products_db d))) req v =
        v\<lparr>issued := issued v @ [update_query req],
          sent := sent v @ [\<lparr>status = 404, content = Text ''Product not found''\<rparr>]\<rparr>"
    by (simp add: first_is_zero_def respond_def after_query_def)
qed

text \<open>
  The scenario of the specification, \<open>PUT /api/products/999\<close> with a valid body on the
  empty table: 404. On a table with the row 1: a DELETE of 1 removes it and is answered
  200, a DELETE of 7 is answered 404, and a PUT on 1 replaces the four fields.
\<close>

theorem rows_affected_decide_witness:
  "put_product (Fulfilled (Some (products_db tedious)))
      \<lparr>params_id = ''999'',
        body = JObj [(''name'', JStr ''Pen''), (''price'', JNum 12), (''qty'', JNum 3)]\<rparr>
      \<lparr>store = \<lparr>rows = [], identity = 1\<rparr>, issued = [], sent = []\<rparr>
    = \<lparr>store = \<lparr>rows = [], identity = 1\<rparr>,
       issued = [update_query \<lparr>params_id = ''999'',
          body = JObj [(''name'', JStr ''Pen''), (''price'', JNum 12), (''qty'', JNum 3)]\<rparr>],
       sent = [\<lparr>status = 404, content = Text ''Product not found''\<rparr>]\<rparr>
   \<and> delete_product (Fulfilled (Some (products_db tedious)))
      \<lparr>params_id = ''1'', body = JUndefined\<rparr>
      \<lparr>store = \<lparr>rows = [\<lparr>prod_id = 1, prod_name = ''Laptop'', prod_price = 75000, prod_qty = 5,
                             prod_description = ''''\<rparr>], identity = 2\<rparr>,
       issued = [], sent = []\<rparr>
    = \<lparr>store = \<lparr>rows = [], identity = 2\<rparr>,
       issued = [delete_query \<lparr>params_id = ''1'', body = JUndefined\<rparr>],
       sent = [\<lparr>status = 200, content = Text ''Product deleted successfully''\<rparr>]\<rparr>
   \<and> delete_product (Fulfilled (Some (products_db tedious)))
      \<lparr>params_id = ''7'', body = JUndefined\<rparr>
      \<lparr>store = \<lparr>rows = [\<lparr>prod_id = 1, prod_name = ''Laptop'', prod_price = 75000, prod_qty = 5,
                             prod_description = ''''\<rparr>], identity = 2\<rparr>,
       issued = [], sent = []\<rparr>
    = \<lparr>store = \<lparr>rows = [\<lparr>prod_id = 1, prod_name = ''Laptop'', prod_price = 75000, prod_qty = 5,
                             prod_description = ''''\<rparr>], identity = 2\<rparr>,
       issued = [delete_query \<lparr>params_id = ''7'', body = JUndefined\<rparr>],
       sent = [\<lparr>status = 404, content = Text ''Product not found''\<rparr>]\<rparr>
   \<and> put_product (Fulfilled (Some (products_db tedious)))
      \<lparr>params_id = ''1'',
        body = JObj [(''name'', JStr ''Pen''), (''price'', JNum 12), (''qty'', JNum 3)]\<rparr>
      \<lparr>store = \<lparr>rows = [\<lparr>prod_id = 1, prod_name = ''Laptop'', prod_price = 75000, prod_qty = 5,
                             prod_description = ''Fast''\<rparr>], identity = 2\<rparr>,
       issued = [], sent = []\<rparr>
    = \<lparr>store = \<lparr>rows = [\<lparr>prod_id = 1, prod_name = ''Pen'', prod_price = 12, prod_qty = 3,
                             prod_description = ''''\<rparr>], identity = 2\<rparr>,
       issued = [update_query \<lparr>params_id = ''1'',
          body = JObj [(''name'', JStr ''Pen''), (''price'', JNum 12), (''qty'', JNum 3)]\<rparr>],
       sent = [\<lparr>status = 200, content = Text ''Product updated successfully''\<rparr>]\<rparr>"
proof -
  let ?db = "products_db tedious"
  let ?pen = "JObj [(''name'', JStr ''Pen''), (''price'', JNum 12), (''qty'', JNum 3)]"
  let ?laptop = "\<lparr>prod_id = 1, prod_name = ''Laptop'', prod_price = 75000, prod_qty = 5,
                  prod_description = ''''\<rparr>"
  let ?fast = "\<lparr>prod_id = 1, prod_name = ''Laptop'', prod_price = 75000, prod_qty = 5,
                prod_description = ''Fast''\<rparr>"
  let ?none = "\<lparr>store = \<lparr>rows = [], identity = 1\<rparr>, issued = [], sent = []\<rparr>"
  let ?one = "\<lparr>store = \<lparr>rows = [?laptop], identity = 2\<rparr>, issued = [], sent = []\<rparr>"
  let ?other = "\<lparr>store = \<lparr>rows = [?fast], identity = 2\<rparr>, issued = [], sent = []\<rparr>"
  have present: "required_present \<lparr>params_id = x, body = ?pen\<rparr>" for x
    by (simp add: required_present_def)
  have del1: "?db (delete_query \<lparr>params_id = ''1'', body = JUndefined\<rparr>) (store ?one) =
      (Inr \<lparr>recordset = [], rowsAffected = [1]\<rparr>, \<lparr>rows = [], identity = 2\<rparr>)"
    by (simp add: products_db_delete tedious_simps tedious_nvarchar_str tedious_examples tedious_int_path select_by_id_def delete_row_def)
  have del7: "?db (delete_query \<lparr>params_id = ''7'', body = JUndefined\<rparr>) (store ?one) =
      (Inr \<lparr>recordset = [], rowsAffected = [0]\<rparr>, \<lparr>rows = [?laptop], identity = 2\<rparr>)"
    by (simp add: products_db_delete tedious_simps tedious_nvarchar_str tedious_examples tedious_int_path select_by_id_def delete_row_def)
  have upd1: "?db (update_query \<lparr>params_id = ''1'', body = ?pen\<rparr>) (store ?other) =
      (Inr \<lparr>recordset = [], rowsAffected = [1]\<rparr>,
       \<lparr>rows = [\<lparr>prod_id = 1, prod_name = ''Pen'', prod_price = 12, prod_qty = 3,
                  prod_description = ''''\<rparr>], identity = 2\<rparr>)"
    by (simp add: products_db_update [where i = 1 and n = "''Pen''" and p = 12 and k = 3 and ds = "''''"]
          tedious_simps tedious_nvarchar_str tedious_examples tedious_int_path js_or_def
          select_by_id_def update_row_def required_present_def)
  from present del1 del7 upd1
    rows_affected_decide [where pool = ?db and d = tedious
      and v = ?none and req = "\<lparr>params_id = ''999'', body = ?pen\<rparr>"
      and i = 999 and n = "''Pen''" and p = 12 and k = 3 and ds = "''''"]
    rows_affected_decide [where pool = ?db and w = ?one
      and req = "\<lparr>params_id = ''1'', body = JUndefined\<rparr>"
      and result = "\<lparr>recordset = [], rowsAffected = [1]\<rparr>" and s' = "\<lparr>rows = [], identity = 2\<rparr>"]
    rows_affected_decide [where pool = ?db and w = ?one
      and req = "\<lparr>params_id = ''7'', body = JUndefined\<rparr>"
      and result = "\<lparr>recordset = [], rowsAffected = [0]\<rparr>"
      and s' = "\<lparr>rows = [?laptop], identity = 2\<rparr>"]
    rows_affected_decide [where pool = ?db and w = ?other
      and req = "\<lparr>params_id = ''1'', body = ?pen\<rparr>"
      and result = "\<lparr>recordset = [], rowsAffected = [1]\<rparr>"
      and s' = "\<lparr>rows = [\<lparr>prod_id = 1, prod_name = ''Pen'', prod_price = 12, prod_qty = 3,
                  prod_description = ''''\<rparr>], identity = 2\<rparr>"]
  show ?thesis
    by (simp add: tedious_simps tedious_nvarchar_str tedious_examples tedious_int_path js_or_def select_by_id_def first_is_zero_def)
qed

section \<open>Zero is falsy\<close>

text \<open>
  C5. A POST or a PUT whose body holds the number 0 as price or as qty is answered 400
  with the text of a missing field, exactly as the same request is when the body is without
  that property, and nothing is submitted to the store, which is what it was.
\<close>

theorem zero_is_missing:
  assumes "field (body req) ''price'' = JNum 0 \<or> field (body req) ''qty'' = JNum 0"
  shows "post_product pp req w = respond 400 (Text ''Name and price are required'') w
       \<and> put_product pp req w = respond 400 (Text ''Name and price are required'') w
       \<and> post_product pp req w = post_product pp (req\<lparr>body := without ''price'' (body req)\<rparr>) w
       \<and> post_product pp req w = post_product pp (req\<lparr>body := without ''qty'' (body req)\<rparr>) w
       \<and> put_product pp req w = put_product pp (req\<lparr>body := without ''price'' (body req)\<rparr>) w
       \<and> put_product pp req w = put_product pp (req\<lparr>body := without ''qty'' (body req)\<rparr>) w
       \<and> store (post_product pp req w) = store w \<and> issued (post_product pp req w) = issued w
       \<and> store (put_product pp req w) = store w \<and> issued (put_product pp req w) = issued w"
proof -
  from assms have a: "\<not> required_present req"
    by (auto simp: required_present_def)
  from assms have n: "\<not> nullish (body req)"
    by (cases "body req") auto
  have n': "\<not> nullish (without x (body req))" for x
    using n by (cases "body req") simp_all
  have b: "\<not> required_present (req\<lparr>body := without ''price'' (body req)\<rparr>)"
    by (simp add: required_present_def field_without)
  have c: "\<not> required_present (req\<lparr>body := without ''qty'' (body req)\<rparr>)"
    by (simp add: required_present_def field_without)
  show ?thesis
    by (simp add: post_product_invalid put_product_invalid a b c n n' respond_simps)
qed

text \<open>A price of 0 in a POST and a qty of 0 in a PUT, on a working store: 400.\<close>

theorem zero_is_missing_witness:
  "field (JObj [(''name'', JStr ''Pen''), (''price'', JNum 0), (''qty'', JNum 3)]) ''price'' = JNum 0
   \<and> post_product (Fulfilled (Some (products_db tedious)))
      \<lparr>params_id = '''',
        body = JObj [(''name'', JStr ''Pen''), (''price'', JNum 0), (''qty'', JNum 3)]\<rparr>
      \<lparr>store = \<lparr>rows = [], identity = 1\<rparr>, issued = [], sent = []\<rparr>
    = \<lparr>store = \<lparr>rows = [], identity = 1\<rparr>, issued = [],
       sent = [\<lparr>status = 400, content = Text ''Name and price are required''\<rparr>]\<rparr>
   \<and> put_product (Fulfilled (Some (products_db tedious)))
      \<lparr>params_id = ''1'',
        body = JObj [(''name'', JStr ''Pen''), (''price'', JNum 12), (''qty'', JNum 0)]\<rparr>
      \<lparr>store = \<lparr>rows = [], identity = 1\<rparr>, issued = [], sent = []\<rparr>
    = \<lparr>store = \<lparr>rows = [], identity = 1\<rparr>, issued = [],
       sent = [\<lparr>status = 400, content = Text ''Name and price are required''\<rparr>]\<rparr>"
  using zero_is_missing [of
      "\<lparr>params_id = '''',
        body = JObj [(''name'', JStr ''Pen''), (''price'', JNum 0), (''qty'', JNum 3)]\<rparr>"
      "Fulfilled (Some (products_db tedious))"
      "\<lparr>store = \<lparr>rows = [], identity = 1\<rparr>, issued = [], sent = []\<rparr>"]
    zero_is_missing [of
      "\<lparr>params_id = ''1'',
        body = JObj [(''name'', JStr ''Pen''), (''price'', JNum 12), (''qty'', JNum 0)]\<rparr>"
      "Fulfilled (Some (products_db tedious))"
      "\<lparr>store = \<lparr>rows = [], identity = 1\<rparr>, issued = [], sent = []\<rparr>"]
  by (simp add: respond_def)

section \<open>Listing\<close>

text \<open>
  C6. On the Products table in any state, whatever the order in which its rows were
  inserted, GET /api/products submits its one statement and is answered 200 with a JSON
  array of product rows: the rows of the table (the same rows, each once; none when the
  table is empty), in ascending order of id. The table is unchanged. The order is what
  the store makes of the \<open>ORDER BY id ASC\<close> of the statement's text, which is run as it
  is written. On any pool, a rejected query is answered 500 with the error's message.
\<close>

theorem list_sorted_by_id:
  "(\<exists>rs. get_products (Fulfilled (Some (products_db d))) req v =
           v\<lparr>issued := issued v @ [list_query],
             sent := sent v @ [\<lparr>status = 200, content = Json (JArr (map row_json rs))\<rparr>]\<rparr>
         \<and> sorted (map prod_id rs)
         \<and> mset rs = mset (rows (store v)))
   \<and> (pool list_query (store w) = (Inl e, s') \<longrightarrow>
        get_products (Fulfilled (Some pool)) req w =
          w\<lparr>store := s', issued := issued w @ [list_query],
            sent := sent w @ [\<lparr>status = 500, content = Text e\<rparr>]\<rparr>)"
proof (intro conjI impI)
  have "get_products (Fulfilled (Some (products_db d))) req v =
      v\<lparr>issued := issued v @ [list_query],
        sent := sent v @ [\<lparr>status = 200,
                          content = Json (JArr (map row_json (select_all (store v))))\<rparr>]\<rparr>"
    using get_products_result [where pool = "products_db d" and w = v and req = req,
        OF products_db_list]
    by (simp add: respond_def after_query_def)
  moreover have "sorted (map prod_id (select_all (store v)))"
    by (simp add: select_all_def)
  moreover have "mset (select_all (store v)) = mset (rows (store v))"
    by (simp add: select_all_def)
  ultimately show "\<exists>rs. get_products (Fulfilled (Some (products_db d))) req v =
           v\<lparr>issued := issued v @ [list_query],
             sent := sent v @ [\<lparr>status = 200, content = Json (JArr (map row_json rs))\<rparr>]\<rparr>
         \<and> sorted (map prod_id rs)
         \<and> mset rs = mset (rows (store v))"
    by blast
next
  assume "pool list_query (store w) = (Inl e, s')"
  then show "get_products (Fulfilled (Some pool)) req w =
          w\<lparr>store := s', issued := issued w @ [list_query],
            sent := sent w @ [\<lparr>status = 500, content = Text e\<rparr>]\<rparr>"
    by (simp add: get_products_error respond_def after_query_def)
qed

text \<open>
  Rows inserted as 3, 1, 2 are listed as 1, 2, 3: the answer is an array of rows in
  ascending order that are the three rows of the table, and it is this array. A closed
  connection gives 500.
\<close>

theorem list_sorted_by_id_witness:
  "(\<exists>rs. sent (get_products (Fulfilled (Some (products_db tedious)))
        \<lparr>params_id = '''', body = JUndefined\<rparr>
        \<lparr>store = \<lparr>rows = [\<lparr>prod_id = 3, prod_name = ''Mouse'', prod_price = 450, prod_qty = 20,
                                prod_description = ''''\<rparr>,
                              \<lparr>prod_id = 1, prod_name = ''Laptop'', prod_price = 75000, prod_qty = 5,
                                prod_description = ''''\<rparr>,
                              \<lparr>prod_id = 2, prod_name = ''Desk'', prod_price = 9000, prod_qty = 2,
                                prod_description = ''Oak''\<rparr>], identity = 4\<rparr>,
         issued = [], sent = []\<rparr>)
       = [\<lparr>status = 200, content = Json (JArr (map row_json rs))\<rparr>]
     \<and> sorted (map prod_id rs)
     \<and> mset rs = mset [\<lparr>prod_id = 3, prod_name = ''Mouse'', prod_price = 450, prod_qty = 20,
                                prod_description = ''''\<rparr>,
                              \<lparr>prod_id = 1, prod_name = ''Laptop'', prod_price = 75000, prod_qty = 5,
                                prod_description = ''''\<rparr>,
                              \<lparr>prod_id = 2, prod_name = ''Desk'', prod_price = 9000, prod_qty = 2,
                                prod_description = ''Oak''\<rparr>])
   \<and> sent (get_products (Fulfilled (Some (products_db tedious)))
      \<lparr>params_id = '''', body = JUndefined\<rparr>
      \<lparr>store = \<lparr>rows = [\<lparr>prod_id = 3, prod_name = ''Mouse'', prod_price = 450, prod_qty = 20,
                              prod_description = ''''\<rparr>,
                            \<lparr>prod_id = 1, prod_name = ''Laptop'', prod_price = 75000, prod_qty = 5,
                              prod_description = ''''\<rparr>,
                            \<lparr>prod_id = 2, prod_name = ''Desk'', prod_price = 9000, prod_qty = 2,
                              prod_description = ''Oak''\<rparr>], identity = 4\<rparr>,
       issued = [], sent = []\<rparr>)
    = [\<lparr>status = 200,
        content = Json (JArr
          [JObj [(''id'', JNum 1), (''name'', JStr ''Laptop''), (''price'', JNum 75000),
                 (''qty'', JNum 5), (''description'', JStr '''')],
           JObj [(''id'', JNum 2), (''name'', JStr ''Desk''), (''price'', JNum 9000),
                 (''qty'', JNum 2), (''description'', JStr ''Oak'')],
           JObj [(''id'', JNum 3), (''name'', JStr ''Mouse''), (''price'', JNum 450),
                 (''qty'', JNum 20), (''description'', JStr '''')]])\<rparr>]
   \<and> get_products (Fulfilled (Some (failing_pool ''Connection is closed.'')))
      \<lparr>params_id = '''', body = JUndefined\<rparr> \<lparr>store = (), issued = [], sent = []\<rparr>
    = \<lparr>store = (), issued = [list_query],
       sent = [\<lparr>status = 500, content = Text ''Connection is closed.''\<rparr>]\<rparr>"
proof -
  let ?req = "\<lparr>params_id = '''', body = JUndefined\<rparr>"
  let ?rows = "[\<lparr>prod_id = 3, prod_name = ''Mouse'', prod_price = 450, prod_qty = 20,
                                prod_description = ''''\<rparr>,
                              \<lparr>prod_id = 1, prod_name = ''Laptop'', prod_price = 75000, prod_qty = 5,
                                prod_description = ''''\<rparr>,
                              \<lparr>prod_id = 2, prod_name = ''Desk'', prod_price = 9000, prod_qty = 2,
                                prod_description = ''Oak''\<rparr>]"
  let ?v = "\<lparr>store = \<lparr>rows = ?rows, identity = 4\<rparr>, issued = [], sent = []\<rparr>"
  note inst = list_sorted_by_id [where d = tedious and req = ?req and v = ?v
      and w = "\<lparr>store = (), issued = [], sent = []\<rparr>"
      and pool = "failing_pool ''Connection is closed.''" and s' = "()"
      and e = "''Connection is closed.''"]
  from inst obtain rs where
    rs: "get_products (Fulfilled (Some (products_db tedious))) ?req ?v =
           ?v\<lparr>issued := issued ?v @ [list_query],
             sent := sent ?v @ [\<lparr>status = 200, content = Json (JArr (map row_json rs))\<rparr>]\<rparr>"
      "sorted (map prod_id rs)" "mset rs = mset (rows (store ?v))"
    by blast
  have first: "\<exists>rs. sent (get_products (Fulfilled (Some (products_db tedious))) ?req ?v)
       = [\<lparr>status = 200, content = Json (JArr (map row_json rs))\<rparr>]
     \<and> sorted (map prod_id rs) \<and> mset rs = mset ?rows"
    using rs by (intro exI [of _ rs]) simp
  have listed: "products_db tedious list_query (store ?v) =
      (Inr \<lparr>recordset = map row_json (select_all (store ?v)), rowsAffected = [3]\<rparr>, store ?v)"
    by (simp add: products_db_list)
  have second: "sent (get_products (Fulfilled (Some (products_db tedious))) ?req ?v)
    = [\<lparr>status = 200,
        content = Json (JArr
          [JObj [(''id'', JNum 1), (''name'', JStr ''Laptop''), (''price'', JNum 75000),
                 (''qty'', JNum 5), (''description'', JStr '''')],
           JObj [(''id'', JNum 2), (''name'', JStr ''Desk''), (''price'', JNum 9000),
                 (''qty'', JNum 2), (''description'', JStr ''Oak'')],
           JObj [(''id'', JNum 3), (''name'', JStr ''Mouse''), (''price'', JNum 450),
                 (''qty'', JNum 20), (''description'', JStr '''')]])\<rparr>]"
    using get_products_result [where pool = "products_db tedious" and w = ?v and req = ?req,
        OF listed]
    by (simp add: respond_def after_query_def select_all_def row_json_def)
  have third: "get_products (Fulfilled (Some (failing_pool ''Connection is closed.''))) ?req
      \<lparr>store = (), issued = [], sent = []\<rparr>
    = \<lparr>store = (), issued = [list_query],
       sent = [\<lparr>status = 500, content = Text ''Connection is closed.''\<rparr>]\<rparr>"
    using inst by (simp add: failing_pool_simp)
  from first second third show ?thesis
    by blast
qed

section \<open>Reading one product\<close>

text \<open>
  C7. When the store answers the SELECT of GET /api/products/{id} without error, the
  handler answers 404 with \<open>Product not found\<close> if the answer holds no row, and otherwise
  200 with the first row of the answer as a JSON object; when the store rejects the query,
  the handler answers 500 with the error's message.
\<close>

theorem get_product_outcomes:
  "(pool (get_query req) (store w) = (Inr \<lparr>recordset = [], rowsAffected = ns\<rparr>, s') \<longrightarrow>
      get_product (Fulfilled (Some pool)) req w =
        w\<lparr>store := s', issued := issued w @ [get_query req],
          sent := sent w @ [\<lparr>status = 404, content = Text ''Product not found''\<rparr>]\<rparr>)
   \<and> (pool (get_query req) (store w) = (Inr \<lparr>recordset = r # rs, rowsAffected = ns\<rparr>, s') \<longrightarrow>
      get_product (Fulfilled (Some pool)) req w =
        w\<lparr>store := s', issued := issued w @ [get_query req],
          sent := sent w @ [\<lparr>status = 200, content = Json r\<rparr>]\<rparr>)
   \<and> (pool (get_query req) (store w) = (Inl e, s') \<longrightarrow>
      get_product (Fulfilled (Some pool)) req w =
        w\<lparr>store := s', issued := issued w @ [get_query req],
          sent := sent w @ [\<lparr>status = 500, content = Text e\<rparr>]\<rparr>)"
  by (simp add: get_product_result get_product_error respond_def after_query_def first_elem_def)

text \<open>
  On the Products table holding the row 1: GET of 2 is 404, GET of 1 is 200 with the row;
  a path id that the driver refuses is 500.
\<close>

theorem get_product_outcomes_witness:
  "get_product (Fulfilled (Some (products_db tedious)))
      \<lparr>params_id = ''2'', body = JUndefined\<rparr>
      \<lparr>store = \<lparr>rows = [\<lparr>prod_id = 1, prod_name = ''Laptop'', prod_price = 75000, prod_qty = 5,
                             prod_description = ''''\<rparr>], identity = 2\<rparr>,
       issued = [], sent = []\<rparr>
    = \<lparr>store = \<lparr>rows = [\<lparr>prod_id = 1, prod_name = ''Laptop'', prod_price = 75000, prod_qty = 5,
                             prod_description = ''''\<rparr>], identity = 2\<rparr>,
       issued = [get_query \<lparr>params_id = ''2'', body = JUndefined\<rparr>],
       sent = [\<lparr>status = 404, content = Text ''Product not found''\<rparr>]\<rparr>
   \<and> get_product (Fulfilled (Some (products_db tedious)))
      \<lparr>params_id = ''1'', body = JUndefined\<rparr>
      \<lparr>store = \<lparr>rows = [\<lparr>prod_id = 1, prod_name = ''Laptop'', prod_price = 75000, prod_qty = 5,
                             prod_description = ''''\<rparr>], identity = 2\<rparr>,
       issued = [], sent = []\<rparr>
    = \<lparr>store = \<lparr>rows = [\<lparr>prod_id = 1, prod_name = ''Laptop'', prod_price = 75000, prod_qty = 5,
                             prod_description = ''''\<rparr>], identity = 2\<rparr>,
       issued = [get_query \<lparr>params_id = ''1'', body = JUndefined\<rparr>],
       sent = [\<lparr>status = 200,
                content = Json (JObj [(''id'', JNum 1), (''name'', JStr ''Laptop''),
                                      (''price'', JNum 75000), (''qty'', JNum 5),
                                      (''description'', JStr '''')])\<rparr>]\<rparr>
   \<and> get_product (Fulfilled (Some (products_db tedious)))
      \<lparr>params_id = ''abc'', body = JUndefined\<rparr>
      \<lparr>store = \<lparr>rows = [], identity = 1\<rparr>, issued = [], sent = []\<rparr>
    = \<lparr>store = \<lparr>rows = [], identity = 1\<rparr>,
       issued = [get_query \<lparr>params_id = ''abc'', body = JUndefined\<rparr>],
       sent = [\<lparr>status = 500, content = Text (validation_failed ''id'' ''Invalid number.'')\<rparr>]\<rparr>"
proof -
  let ?row = "\<lparr>prod_id = 1, prod_name = ''Laptop'', prod_price = 75000, prod_qty = 5,
               prod_description = ''''\<rparr>"
  let ?t = "\<lparr>rows = [?row], identity = 2\<rparr>"
  let ?one = "\<lparr>store = ?t, issued = [], sent = []\<rparr>"
  let ?none = "\<lparr>store = \<lparr>rows = [], identity = 1\<rparr>, issued = [], sent = []\<rparr>"
  have a: "products_db tedious (get_query \<lparr>params_id = ''2'', body = JUndefined\<rparr>) (store ?one)
      = (Inr \<lparr>recordset = [], rowsAffected = [0]\<rparr>, ?t)"
    by (simp add: products_db_get tedious_simps tedious_nvarchar_str tedious_examples tedious_int_path select_by_id_def)
  have b: "products_db tedious (get_query \<lparr>params_id = ''1'', body = JUndefined\<rparr>) (store ?one)
      = (Inr \<lparr>recordset = [row_json ?row], rowsAffected = [1]\<rparr>, ?t)"
    by (simp add: products_db_get tedious_simps tedious_nvarchar_str tedious_examples tedious_int_path select_by_id_def)
  have c: "products_db tedious (get_query \<lparr>params_id = ''abc'', body = JUndefined\<rparr>) (store ?none)
      = (Inl (validation_failed ''id'' ''Invalid number.''), \<lparr>rows = [], identity = 1\<rparr>)"
    by (simp add: products_db_get tedious_simps tedious_nvarchar_str tedious_examples tedious_int_path tedious_refusal_path)
  from a b c
    get_product_outcomes [where pool = "products_db tedious" and w = ?one and ns = "[0]"
      and s' = ?t and req = "\<lparr>params_id = ''2'', body = JUndefined\<rparr>"]
    get_product_outcomes [where pool = "products_db tedious" and w = ?one and ns = "[1]"
      and s' = ?t and req = "\<lparr>params_id = ''1'', body = JUndefined\<rparr>"
      and r = "row_json ?row" and rs = "[]"]
    get_product_outcomes [where pool = "products_db tedious" and w = ?none
      and s' = "\<lparr>rows = [], identity = 1\<rparr>" and req = "\<lparr>params_id = ''abc'', body = JUndefined\<rparr>"
      and e = "validation_failed ''id'' ''Invalid number.''"]
  show ?thesis by (simp add: row_json_def)
qed

section \<open>Store errors\<close>

text \<open>
  C8. In each of the five handlers, when the database client rejects the query, the
  handler writes exactly one response, 500 with the error's message as its text, and has
  submitted the statement once: it does not try again. (For POST and PUT the body passes
  the test, otherwise no query is made.)
\<close>

theorem store_error_500:
  "(pool list_query (store w) = (Inl msg, s') \<longrightarrow>
      get_products (Fulfilled (Some pool)) req w =
        w\<lparr>store := s', issued := issued w @ [list_query],
          sent := sent w @ [\<lparr>status = 500, content = Text msg\<rparr>]\<rparr>)
   \<and> (pool (get_query req) (store w) = (Inl msg, s') \<longrightarrow>
      get_product (Fulfilled (Some pool)) req w =
        w\<lparr>store := s', issued := issued w @ [get_query req],
          sent := sent w @ [\<lparr>status = 500, content = Text msg\<rparr>]\<rparr>)
   \<and> (required_present req \<and> pool (insert_query req) (store w) = (Inl msg, s') \<longrightarrow>
      post_product (Fulfilled (Some pool)) req w =
        w\<lparr>store := s', issued := issued w @ [insert_query req],
          sent := sent w @ [\<lparr>status = 500, content = Text msg\<rparr>]\<rparr>)
   \<and> (required_present req \<and> pool (update_query req) (store w) = (Inl msg, s') \<longrightarrow>
      put_product (Fulfilled (Some pool)) req w =
        w\<lparr>store := s', issued := issued w @ [update_query req],
          sent := sent w @ [\<lparr>status = 500, content = Text msg\<rparr>]\<rparr>)
   \<and> (pool (delete_query req) (store w) = (Inl msg, s') \<longrightarrow>
      delete_product (Fulfilled (Some pool)) req w =
        w\<lparr>store := s', issued := issued w @ [delete_query req],
          sent := sent w @ [\<lparr>status = 500, content = Text msg\<rparr>]\<rparr>)"
  by (simp add: get_products_error get_product_error post_product_error put_product_error
        delete_product_error respond_def after_query_def)

text \<open>A pool whose connection is closed: every handler answers 500 with that message.\<close>

theorem store_error_500_witness:
  "get_products (Fulfilled (Some (failing_pool ''Connection is closed.'')))
      \<lparr>params_id = '''', body = JUndefined\<rparr> \<lparr>store = (), issued = [], sent = []\<rparr>
    = \<lparr>store = (), issued = [list_query],
       sent = [\<lparr>status = 500, content = Text ''Connection is closed.''\<rparr>]\<rparr>
   \<and> get_product (Fulfilled (Some (failing_pool ''Connection is closed.'')))
      \<lparr>params_id = ''1'', body = JUndefined\<rparr> \<lparr>store = (), issued = [], sent = []\<rparr>
    = \<lparr>store = (), issued = [get_query \<lparr>params_id = ''1'', body = JUndefined\<rparr>],
       sent = [\<lparr>status = 500, content = Text ''Connection is closed.''\<rparr>]\<rparr>
   \<and> post_product (Fulfilled (Some (failing_pool ''Connection is closed.'')))
      \<lparr>params_id = '''',
        body = JObj [(''name'', JStr ''Pen''), (''price'', JNum 12), (''qty'', JNum 3)]\<rparr>
      \<lparr>store = (), issued = [], sent = []\<rparr>
    = \<lparr>store = (),
       issued = [insert_query \<lparr>params_id = '''',
          body = JObj [(''name'', JStr ''Pen''), (''price'', JNum 12), (''qty'', JNum 3)]\<rparr>],
       sent = [\<lparr>status = 500, content = Text ''Connection is closed.''\<rparr>]\<rparr>
   \<and> put_product (Fulfilled (Some (failing_pool ''Connection is closed.'')))
      \<lparr>params_id = ''1'',
        body = JObj [(''name'', JStr ''Pen''), (''price'', JNum 12), (''qty'', JNum 3)]\<rparr>
      \<lparr>store = (), issued = [], sent = []\<rparr>
    = \<lparr>store = (),
       issued = [update_query \<lparr>params_id = ''1'',
          body = JObj [(''name'', JStr ''Pen''), (''price'', JNum 12), (''qty'', JNum 3)]\<rparr>],
       sent = [\<lparr>status = 500, content = Text ''Connection is closed.''\<rparr>]\<rparr>
   \<and> delete_product (Fulfilled (Some (failing_pool ''Connection is closed.'')))
      \<lparr>params_id = ''1'', body = JUndefined\<rparr> \<lparr>store = (), issued = [], sent = []\<rparr>
    = \<lparr>store = (), issued = [delete_query \<lparr>params_id = ''1'', body = JUndefined\<rparr>],
       sent = [\<lparr>status = 500, content = Text ''Connection is closed.''\<rparr>]\<rparr>"
  using store_error_500 [of "failing_pool ''Connection is closed.''"
      "\<lparr>store = (), issued = [], sent = []\<rparr>" "''Connection is closed.''" "()"
      "\<lparr>params_id = '''', body = JUndefined\<rparr>"]
    store_error_500 [of "failing_pool ''Connection is closed.''"
      "\<lparr>store = (), issued = [], sent = []\<rparr>" "''Connection is closed.''" "()"
      "\<lparr>params_id = ''1'', body = JUndefined\<rparr>"]
    store_error_500 [of "failing_pool ''Connection is closed.''"
      "\<lparr>store = (), issued = [], sent = []\<rparr>" "''Connection is closed.''" "()"
      "\<lparr>params_id = '''',
        body = JObj [(''name'', JStr ''Pen''), (''price'', JNum 12), (''qty'', JNum 3)]\<rparr>"]
    store_error_500 [of "failing_pool ''Connection is closed.''"
      "\<lparr>store = (), issued = [], sent = []\<rparr>" "''Connection is closed.''" "()"
      "\<lparr>params_id = ''1'',
        body = JObj [(''name'', JStr ''Pen''), (''price'', JNum 12), (''qty'', JNum 3)]\<rparr>"]
  by (simp add: failing_pool_simp required_present_def)

section \<open>The connection configuration\<close>

text \<open>
  C9, as amended. The configuration takes the server address, the database name, the user,
  the password and the port from the environment (\<open>DB_SERVER\<close>, \<open>DB_DATABASE\<close>, \<open>DB_USER\<close>,
  \<open>DB_PASSWORD\<close>, and \<open>DB_PORT\<close> through \<open>parseInt\<close>); the two transport-security options
  are fixed in the source, whatever the environment: \<open>encrypt\<close> is false and
  \<open>trustServerCertificate\<close> is true.
\<close>

theorem config_sources:
  "server (config parseInt e) = env_get e ''DB_SERVER''
   \<and> database (config parseInt e) = env_get e ''DB_DATABASE''
   \<and> user (config parseInt e) = env_get e ''DB_USER''
   \<and> password (config parseInt e) = env_get e ''DB_PASSWORD''
   \<and> port (config parseInt e) = parseInt (env_get e ''DB_PORT'')
   \<and> options (config parseInt e) = \<lparr>encrypt = False, trustServerCertificate = True\<rparr>"
  by (simp add: config_def)

text \<open>
  C9 as stated fails: an environment that sets nothing has the two options all the same,
  and an environment that asks for encryption and for no trust override does not get
  them.
\<close>

theorem config_options_counterexample:
  "options (config (\<lambda>v. JNaN) Map.empty) = \<lparr>encrypt = False, trustServerCertificate = True\<rparr>
   \<and> options (config (\<lambda>v. JNum 1433)
        [''DB_SERVER'' \<mapsto> ''db.example.org'', ''DB_PORT'' \<mapsto> ''1433'',
         ''DB_ENCRYPT'' \<mapsto> ''true'', ''DB_TRUST_SERVER_CERTIFICATE'' \<mapsto> ''false''])
     = \<lparr>encrypt = False, trustServerCertificate = True\<rparr>"
  by (simp add: config_def)

section \<open>A failed connection\<close>

text \<open>
  C10. When the one connection attempt is rejected, \<open>poolPromise\<close> is fulfilled with
  \<open>undefined\<close> (and the failure is logged), so \<open>await poolPromise\<close> returns in every later
  request; the GET and DELETE handlers, and the POST and PUT handlers once the body has
  passed the test, then answer 500 with the TypeError of \<open>request\<close> read on \<open>undefined\<close>,
  and submit nothing. A POST or PUT whose body fails the test never reaches the handle and
  is answered 400 as ever.
\<close>

theorem failed_connection:
  assumes "connect cfg = Rejected err"
  shows "poolPromise connect cfg c = (Fulfilled None, c @ [[''Database connection failed: '', err]])
    \<and> await (fst (poolPromise connect cfg c)) = Inr None
    \<and> get_products (fst (poolPromise connect cfg c)) req w =
        w\<lparr>sent := sent w @ [\<lparr>status = 500, content = Text (cannot_read ''undefined'' ''request'')\<rparr>]\<rparr>
    \<and> get_product (fst (poolPromise connect cfg c)) req w =
        w\<lparr>sent := sent w @ [\<lparr>status = 500, content = Text (cannot_read ''undefined'' ''request'')\<rparr>]\<rparr>
    \<and> delete_product (fst (poolPromise connect cfg c)) req w =
        w\<lparr>sent := sent w @ [\<lparr>status = 500, content = Text (cannot_read ''undefined'' ''request'')\<rparr>]\<rparr>
    \<and> (\<not> nullish (body req) \<longrightarrow>
         post_product (fst (poolPromise connect cfg c)) req w =
           w\<lparr>sent := sent w @
               [if required_present req
                then \<lparr>status = 500, content = Text (cannot_read ''undefined'' ''request'')\<rparr>
                else \<lparr>status = 400, content = Text ''Name and price are required''\<rparr>]\<rparr>
       \<and> put_product (fst (poolPromise connect cfg c)) req w =
           w\<lparr>sent := sent w @
               [if required_present req
                then \<lparr>status = 500, content = Text (cannot_read ''undefined'' ''request'')\<rparr>
                else \<lparr>status = 400, content = Text ''Name and price are required''\<rparr>]\<rparr>)"
proof -
  have pp: "poolPromise connect cfg c = (Fulfilled None, c @ [[''Database connection failed: '', err]])"
    using assms by (rule poolPromise_rejected)
  show ?thesis
    unfolding pp
    by (simp add: await_def get_products_undefined get_product_undefined delete_product_undefined
          post_product_undefined put_product_undefined post_product_invalid put_product_invalid
          respond_def)
qed

text \<open>
  A server that cannot be reached: the promise holds \<open>undefined\<close>, the console has the
  line, and \<open>GET /api/products/1\<close> is answered 500 with
  \<open>Cannot read properties of undefined (reading 'request')\<close>.
\<close>

theorem failed_connection_witness:
  "poolPromise (\<lambda>cfg. Rejected ''Failed to connect to db.example.org:1433'')
      (config (\<lambda>v. JNum 1433) [''DB_SERVER'' \<mapsto> ''db.example.org'', ''DB_PORT'' \<mapsto> ''1433''])
      []
    = (Fulfilled (None :: unit pool option),
       [[''Database connection failed: '', ''Failed to connect to db.example.org:1433'']])
   \<and> get_product
        (fst (poolPromise (\<lambda>cfg. Rejected ''Failed to connect to db.example.org:1433'')
           (config (\<lambda>v. JNum 1433) [''DB_SERVER'' \<mapsto> ''db.example.org'', ''DB_PORT'' \<mapsto> ''1433''])
           []))
        \<lparr>params_id = ''1'', body = JObj [(''name'', JStr ''Pen''), (''price'', JNum 12), (''qty'', JNum 3)]\<rparr>
        \<lparr>store = (), issued = [], sent = []\<rparr>
    = \<lparr>store = (), issued = [],
       sent = [\<lparr>status = 500,
                content = Text (''Cannot read properties of undefined (reading '' @ [CHR 0x27]
                            @ ''request'' @ [CHR 0x27] @ '')'')\<rparr>]\<rparr>
   \<and> post_product
        (fst (poolPromise (\<lambda>cfg. Rejected ''Failed to connect to db.example.org:1433'')
           (config (\<lambda>v. JNum 1433) [''DB_SERVER'' \<mapsto> ''db.example.org'', ''DB_PORT'' \<mapsto> ''1433''])
           []))
        \<lparr>params_id = ''1'', body = JObj [(''name'', JStr ''Pen''), (''price'', JNum 12), (''qty'', JNum 3)]\<rparr>
        \<lparr>store = (), issued = [], sent = []\<rparr>
    = \<lparr>store = (), issued = [],
       sent = [\<lparr>status = 500,
                content = Text (''Cannot read properties of undefined (reading '' @ [CHR 0x27]
                            @ ''request'' @ [CHR 0x27] @ '')'')\<rparr>]\<rparr>"
  using failed_connection [of "\<lambda>cfg. Rejected ''Failed to connect to db.example.org:1433''"
      "config (\<lambda>v. JNum 1433) [''DB_SERVER'' \<mapsto> ''db.example.org'', ''DB_PORT'' \<mapsto> ''1433'']"
      "''Failed to connect to db.example.org:1433''" "[]"
      "\<lparr>params_id = ''1'', body = JObj [(''name'', JStr ''Pen''), (''price'', JNum 12), (''qty'', JNum 3)]\<rparr>"
      "\<lparr>store = (), issued = [], sent = []\<rparr>"]
  by (clarsimp simp: cannot_read_def required_present_def)

end

